theory Spec2Isabelle
  imports Main
begin

section \<open>Errors as values\<close>

text \<open>A JavaScript \<open>Error\<close> carries its message; a rejected promise or a \<open>throw\<close>
  is the left summand of a result.\<close>

datatype error = Error string

fun getErrorMessage :: "error \<Rightarrow> string" where
  "getErrorMessage (Error m) = m"

section \<open>The generated message class \<open>RemoteRepositorySchema\<close>\<close>

text \<open>\<open>remote-repository-schema_pb.ts\<close>: a proto3 message with two string fields.
  \<open>ScalarType.STRING\<close> is the number 9 in the generated field list.\<close>

record RemoteRepositorySchema =
  owner :: string
  name :: string

record FieldInfo =
  field_no :: nat
  field_name :: string
  field_kind :: string
  field_T :: nat

definition RemoteRepositorySchema_typeName :: string where
  "RemoteRepositorySchema_typeName = ''docs.RemoteRepositorySchema''"

definition RemoteRepositorySchema_fields :: "FieldInfo list" where
  "RemoteRepositorySchema_fields =
     [\<lparr>field_no = 1, field_name = ''owner'', field_kind = ''scalar'', field_T = 9\<rparr>,
      \<lparr>field_no = 2, field_name = ''name'', field_kind = ''scalar'', field_T = 9\<rparr>]"

text \<open>\<open>PartialMessage<RemoteRepositorySchema>\<close>: every field may be left out.\<close>

record PartialRemoteRepositorySchema =
  partial_owner :: "string option"
  partial_name :: "string option"

text \<open>\<open>proto3.util.initPartial(data, this)\<close> belongs to the protobuf runtime, which is
  outside the source files: with no data it leaves the target as it is, otherwise it
  copies the members that the partial message gives.\<close>

definition initPartial ::
  "PartialRemoteRepositorySchema option \<Rightarrow> RemoteRepositorySchema \<Rightarrow> RemoteRepositorySchema" where
  "initPartial data target =
     (case data of
        None \<Rightarrow> target
      | Some d \<Rightarrow>
          \<lparr>owner = (case partial_owner d of None \<Rightarrow> owner target | Some v \<Rightarrow> v),
           name = (case partial_name d of None \<Rightarrow> name target | Some v \<Rightarrow> v)\<rparr>)"

text \<open>The constructor: the field initialisers \<open>owner = ""\<close> and \<open>name = ""\<close> run first,
  then \<open>initPartial\<close>.\<close>

definition new_RemoteRepositorySchema ::
  "PartialRemoteRepositorySchema option \<Rightarrow> RemoteRepositorySchema" where
  "new_RemoteRepositorySchema data = initPartial data \<lparr>owner = '''', name = ''''\<rparr>"

section \<open>The webview controller \<open>DataExtensionsEditorView\<close>\<close>

subsection \<open>Data\<close>

record Uri =
  scheme :: string
  path :: string
  fsPath :: string

record DatabaseItem =
  databaseUri :: Uri
  language :: string

record QlPacksForLanguage =
  dbschemePack :: string
  dbschemePackIsLibraryPack :: bool
  queryPack :: "string option"

record ProgressUpdate =
  step :: int
  maxStep :: int
  message :: string

text \<open>Messages to the webview: \<open>{t: "showProgress", step, maxStep, message}\<close> and
  \<open>{t: "setExternalApiUsages", externalApiUsages}\<close>.\<close>

datatype 'u ToDataExtensionsEditorMessage =
    ShowProgress int int string
  | SetExternalApiUsages 'u

fun msg_t :: "'u ToDataExtensionsEditorMessage \<Rightarrow> string" where
  "msg_t (ShowProgress _ _ _) = ''showProgress''"
| "msg_t (SetExternalApiUsages _) = ''setExternalApiUsages''"

text \<open>A message from the webview, by its tag \<open>t\<close>.\<close>

datatype FromDataExtensionsEditorMessage = FromWebview (from_t: string)

text \<open>One entry of the query suite: \<open>{from, queries, include: {id}}\<close>.\<close>

record SuiteEntry =
  from_pack :: string
  queries :: string
  include_id :: string

text \<open>A position for quick evaluation: a file name with a range of lines and columns.\<close>

datatype Position = Position string nat nat nat nat

record SelectedQuery =
  queryPath :: string
  quickEvalPosition :: "Position option"

record QueryOutputDir =
  bqrsPath :: string
  logPath :: string

text \<open>\<open>QueryResultType.SUCCESS\<close>, or any other result code.\<close>

datatype QueryResultType = SUCCESS | NotSuccess nat

record CoreCompletedQuery =
  outputDir :: QueryOutputDir
  resultType :: QueryResultType

text \<open>A query run as \<open>createQueryRun\<close> returns it: its output directory, and what
  \<open>evaluate\<close> does, namely the progress updates it reports to its callback and the
  outcome of its promise.\<close>

record QueryRun =
  queryRun_outputDir :: QueryOutputDir
  evaluate :: "ProgressUpdate list \<times> (error + CoreCompletedQuery)"

record ResultSetSchema =
  resultSetName :: string
  rows :: nat
  columns :: "(string \<times> string) list"

record BQRSInfo =
  result_sets :: "ResultSetSchema list"

subsection \<open>The world outside the class\<close>

text \<open>Every call that leaves the class is recorded with its arguments.
  \<open>createQueryRun\<close> is called with the database path, the selected query, the
  constant \<open>false\<close>, the workspace folders, \<open>undefined\<close> extension packs, the query
  storage directory and two more \<open>undefined\<close> arguments.\<close>

datatype call =
    Call_qlpackOfDatabase DatabaseItem
  | Call_file string
  | Call_writeFile string string string
  | Call_resolveQueriesInSuite string "string list"
  | Call_createQueryRun string SelectedQuery bool "string list" "string list option" string
  | Call_evaluate string
  | Call_bqrsInfo string
  | Call_bqrsDecode string string

text \<open>The answers of the CLI server, the query runner, the file system and the helper
  modules are parameters: the class is verified for all of them.  \<open>'c\<close> is a decoded
  BQRS chunk, \<open>'u\<close> the list of external API usages.\<close>

record ('c, 'u) world =
  qlpackOfDatabase :: "DatabaseItem \<Rightarrow> error + QlPacksForLanguage"
  tmp_file :: "string \<Rightarrow> error + string"
  dump :: "SuiteEntry list \<Rightarrow> string"
  writeFile :: "string \<Rightarrow> string \<Rightarrow> string \<Rightarrow> error + unit"
  getOnDiskWorkspaceFolders :: "string list"
  resolveQueriesInSuite :: "string \<Rightarrow> string list \<Rightarrow> error + string list"
  createQueryRun ::
    "string \<Rightarrow> SelectedQuery \<Rightarrow> bool \<Rightarrow> string list \<Rightarrow> string list option \<Rightarrow> string
       \<Rightarrow> error + QueryRun"
  bqrsInfo :: "string \<Rightarrow> error + BQRSInfo"
  bqrsDecode :: "string \<Rightarrow> string \<Rightarrow> error + 'c"
  decodeBqrsToExternalApiUsages :: "'c \<Rightarrow> 'u"

text \<open>What the class does to its surroundings: the messages posted to the panel, the
  lines given to \<open>extLogger.log\<close>, the outside calls, the errors shown by
  \<open>showAndLogExceptionWithTelemetry\<close>, and the base class's flag.\<close>

record 'u state =
  posted :: "'u ToDataExtensionsEditorMessage list"
  logged :: "string list"
  calls :: "call list"
  shownErrors :: "string list"
  panelLoaded :: bool

text \<open>The fields of the class that the methods read.\<close>

record DataExtensionsEditorView =
  queryStorageDir :: string
  databaseItem :: DatabaseItem

subsection \<open>Asynchronous methods as state transformers that may fail\<close>

type_synonym ('a, 'u) action = "'u state \<Rightarrow> (error + 'a) \<times> 'u state"

definition return_val :: "'a \<Rightarrow> ('a, 'u) action" where
  "return_val x s = (Inr x, s)"

definition throw :: "error \<Rightarrow> ('a, 'u) action" where
  "throw e s = (Inl e, s)"

text \<open>\<open>await f; g\<close>: a rejection of \<open>f\<close> skips \<open>g\<close> and keeps what \<open>f\<close> already did.\<close>

definition andThen :: "('a, 'u) action \<Rightarrow> ('a \<Rightarrow> ('b, 'u) action) \<Rightarrow> ('b, 'u) action" where
  "andThen f g s = (case f s of (Inl e, s') \<Rightarrow> (Inl e, s') | (Inr x, s') \<Rightarrow> g x s')"

definition external :: "call \<Rightarrow> error + 'a \<Rightarrow> ('a, 'u) action" where
  "external c r s = (r, s\<lparr>calls := calls s @ [c]\<rparr>)"

definition extLogger_log :: "string \<Rightarrow> (unit, 'u) action" where
  "extLogger_log line s = (Inr (), s\<lparr>logged := logged s @ [line]\<rparr>)"

text \<open>A number inside a template literal: its decimal digits.\<close>

definition digit_char :: "nat \<Rightarrow> char" where
  "digit_char d = ''0123456789'' ! d"

fun string_of_nat :: "nat \<Rightarrow> string" where
  "string_of_nat n =
     (if n < 10 then [digit_char n]
      else string_of_nat (n div 10) @ [digit_char (n mod 10)])"

declare string_of_nat.simps [simp del]

subsection \<open>The methods\<close>

text \<open>The methods keep their names and the order of their statements.  Where a name of
  the source is taken by a record field or is a keyword, a neighbour stands in: the
  resolved \<open>queries\<close> are \<open>found\<close>, the parameter \<open>bqrsPath\<close> is \<open>bqrs\<close>, the member \<open>from\<close>
  of a suite entry is \<open>from_pack\<close>, the tag \<open>t\<close> of an incoming message is \<open>from_t\<close>, and
  \<open>file\<close> of \<open>tmp-promise\<close> is \<open>tmp_file\<close>.\<close>

text \<open>Modelled from the spec: \<open>postMessage\<close> belongs to the base class \<open>AbstractWebview\<close>,
  which is not among the source files.  The panel communicates with the extension by
  message passing: the message is appended to what the panel has received.\<close>

definition postMessage :: "'u ToDataExtensionsEditorMessage \<Rightarrow> (unit, 'u) action" where
  "postMessage msg s = (Inr (), s\<lparr>posted := posted s @ [msg]\<rparr>)"

text \<open>\<open>maxStep ?? update.maxStep\<close>.\<close>

definition showProgress :: "ProgressUpdate \<Rightarrow> int option \<Rightarrow> (unit, 'u) action" where
  "showProgress update maxStep' =
     postMessage (ShowProgress (step update)
       (case maxStep' of None \<Rightarrow> maxStep update | Some m \<Rightarrow> m) (message update))"

definition clearProgress :: "(unit, 'u) action" where
  "clearProgress = showProgress \<lparr>step = 0, maxStep = 0, message = ''''\<rparr> None"

text \<open>\<open>if (qlpacks.queryPack) packsToSearch.push(qlpacks.queryPack)\<close>: an absent and an
  empty pack name are both falsy.\<close>

definition packsToSearch :: "QlPacksForLanguage \<Rightarrow> string list" where
  "packsToSearch qlpacks =
     [dbschemePack qlpacks] @
     (case queryPack qlpacks of
        None \<Rightarrow> []
      | Some q \<Rightarrow> if q = '''' then [] else [q])"

text \<open>The loop \<open>for (const qlpack of packsToSearch) suiteYaml.push({...})\<close>.\<close>

fun push_suite_entries :: "string \<Rightarrow> string list \<Rightarrow> SuiteEntry list \<Rightarrow> SuiteEntry list" where
  "push_suite_entries lang [] suiteYaml = suiteYaml"
| "push_suite_entries lang (qlpack # rest) suiteYaml =
     push_suite_entries lang rest
       (suiteYaml @
        [\<lparr>from_pack = qlpack, queries = ''.'',
          include_id = lang @ ''/telemetry/fetch-external-apis''\<rparr>])"

text \<open>The callback given to \<open>evaluate\<close>: \<open>(update) => this.showProgress(update, 1500)\<close>.\<close>

fun report_progress :: "ProgressUpdate list \<Rightarrow> (unit, 'u) action" where
  "report_progress [] = return_val ()"
| "report_progress (update # rest) =
     andThen (showProgress update (Some 1500)) (\<lambda>_. report_progress rest)"

definition queryRun_evaluate :: "QueryRun \<Rightarrow> (CoreCompletedQuery, 'u) action" where
  "queryRun_evaluate queryRun =
     andThen (external (Call_evaluate (logPath (queryRun_outputDir queryRun))) (Inr ())) (\<lambda>_.
     andThen (report_progress (fst (evaluate queryRun))) (\<lambda>_.
     (\<lambda>s. (snd (evaluate queryRun), s))))"

definition runQuery ::
  "('c, 'u) world \<Rightarrow> DataExtensionsEditorView \<Rightarrow> (CoreCompletedQuery option, 'u) action" where
  "runQuery w v =
     andThen (external (Call_qlpackOfDatabase (databaseItem v))
                (qlpackOfDatabase w (databaseItem v))) (\<lambda>qlpacks.
     andThen (external (Call_file ''.qls'') (tmp_file w ''.qls'')) (\<lambda>suiteFile.
     let suiteYaml = push_suite_entries (language (databaseItem v)) (packsToSearch qlpacks) [] in
     andThen (external (Call_writeFile suiteFile (dump w suiteYaml) ''utf8'')
                (writeFile w suiteFile (dump w suiteYaml) ''utf8'')) (\<lambda>_.
     andThen (external (Call_resolveQueriesInSuite suiteFile (getOnDiskWorkspaceFolders w))
                (resolveQueriesInSuite w suiteFile (getOnDiskWorkspaceFolders w))) (\<lambda>found.
     if length found \<noteq> 1 then
       andThen (extLogger_log (''Expected exactly one query, got '' @ string_of_nat (length found)))
         (\<lambda>_. return_val None)
     else
       let query = found ! 0;
           selected = \<lparr>queryPath = query, quickEvalPosition = None\<rparr> in
       andThen (external
                  (Call_createQueryRun (fsPath (databaseUri (databaseItem v))) selected False
                     (getOnDiskWorkspaceFolders w) None (queryStorageDir v))
                  (createQueryRun w (fsPath (databaseUri (databaseItem v))) selected False
                     (getOnDiskWorkspaceFolders w) None (queryStorageDir v))) (\<lambda>queryRun.
       andThen (queryRun_evaluate queryRun) (\<lambda>completed. return_val (Some completed)))))))"

definition getResults :: "('c, 'u) world \<Rightarrow> string \<Rightarrow> ('c option, 'u) action" where
  "getResults w bqrs =
     andThen (external (Call_bqrsInfo bqrs) (bqrsInfo w bqrs)) (\<lambda>info.
     if length (result_sets info) \<noteq> 1 then
       andThen (extLogger_log (''Expected exactly one result set, got ''
                  @ string_of_nat (length (result_sets info))))
         (\<lambda>_. return_val None)
     else
       let resultSet = result_sets info ! 0 in
       andThen (showProgress \<lparr>step = 1200, maxStep = 1500, message = ''Decoding results''\<rparr> None) (\<lambda>_.
       andThen (external (Call_bqrsDecode bqrs (resultSetName resultSet))
                  (bqrsDecode w bqrs (resultSetName resultSet))) (\<lambda>chunk.
       return_val (Some chunk))))"

text \<open>The body of the \<open>try\<close> block of \<open>loadExternalApiUsages\<close>.\<close>

definition loadExternalApiUsages_try ::
  "('c, 'u) world \<Rightarrow> DataExtensionsEditorView \<Rightarrow> (unit, 'u) action" where
  "loadExternalApiUsages_try w v =
     andThen (runQuery w v) (\<lambda>queryResult.
     case queryResult of
       None \<Rightarrow> clearProgress
     | Some completed \<Rightarrow>
         andThen (showProgress \<lparr>step = 1100, maxStep = 1500, message = ''Loading results''\<rparr> None) (\<lambda>_.
         andThen (getResults w (bqrsPath (outputDir completed))) (\<lambda>bqrsChunk.
         case bqrsChunk of
           None \<Rightarrow> clearProgress
         | Some chunk \<Rightarrow>
             andThen (showProgress
                        \<lparr>step = 1450, maxStep = 1500, message = ''Finalizing results''\<rparr> None) (\<lambda>_.
             andThen (postMessage
                        (SetExternalApiUsages (decodeBqrsToExternalApiUsages w chunk))) (\<lambda>_.
             clearProgress)))))"

text \<open>The \<open>catch\<close>: every error of the body is shown, none leaves the method.\<close>

definition loadExternalApiUsages ::
  "('c, 'u) world \<Rightarrow> DataExtensionsEditorView \<Rightarrow> (unit, 'u) action" where
  "loadExternalApiUsages w v s =
     (case loadExternalApiUsages_try w v s of
        (Inl err, s') \<Rightarrow>
          (Inr (),
           s'\<lparr>shownErrors := shownErrors s'
                @ [''Failed to load external APi usages: '' @ getErrorMessage err]\<rparr>)
      | (Inr u, s') \<Rightarrow> (Inr u, s'))"

text \<open>Modelled from the spec: \<open>super.onWebViewLoaded()\<close> belongs to the base class
  \<open>AbstractWebview\<close>, which is not among the source files; it is taken to note that the
  panel has loaded.\<close>

definition super_onWebViewLoaded :: "(unit, 'u) action" where
  "super_onWebViewLoaded s = (Inr (), s\<lparr>panelLoaded := True\<rparr>)"

definition onWebViewLoaded ::
  "('c, 'u) world \<Rightarrow> DataExtensionsEditorView \<Rightarrow> (unit, 'u) action" where
  "onWebViewLoaded w v = andThen super_onWebViewLoaded (\<lambda>_. loadExternalApiUsages w v)"

definition onMessage ::
  "('c, 'u) world \<Rightarrow> DataExtensionsEditorView \<Rightarrow> FromDataExtensionsEditorMessage
     \<Rightarrow> (unit, 'u) action" where
  "onMessage w v msg =
     (if from_t msg = ''viewLoaded'' then onWebViewLoaded w v
      else throw (Error ''Unexpected message type''))"

subsection \<open>The surroundings that the test suite mocks\<close>

text \<open>The values of \<open>external-api-usage-query.test.ts\<close>: a Java database, one resolved
  query, a successful run, one result set \<open>#select\<close>.  A chunk is kept as its rows of
  API names, and the usages as the list of names.\<close>

definition mock_view :: DataExtensionsEditorView where
  "mock_view =
     \<lparr>queryStorageDir = ''/tmp/queries'',
      databaseItem =
        \<lparr>databaseUri = \<lparr>scheme = ''file'', path = ''/a/b/c/src.zip'', fsPath = ''/a/b/c/src.zip''\<rparr>,
         language = ''java''\<rparr>\<rparr>"

definition mock_dump :: "SuiteEntry list \<Rightarrow> string" where
  "mock_dump es =
     concat (map (\<lambda>e. ''- from: '' @ from_pack e @ '' queries: '' @ queries e
                        @ '' include: id: '' @ include_id e @ '' '') es)"

definition mock_world :: "(string list, string list) world" where
  "mock_world =
     \<lparr>qlpackOfDatabase = (\<lambda>_. Inr \<lparr>dbschemePack = ''codeql/java-all'',
                                     dbschemePackIsLibraryPack = False,
                                     queryPack = Some ''codeql/java-queries''\<rparr>),
      tmp_file = (\<lambda>postfix. Inr (''/tmp/tmp-1'' @ postfix)),
      dump = mock_dump,
      writeFile = (\<lambda>_ _ _. Inr ()),
      getOnDiskWorkspaceFolders = [],
      resolveQueriesInSuite =
        (\<lambda>_ _. Inr [''/home/github/codeql/java/ql/src/Telemetry/FetchExternalAPIs.ql'']),
      createQueryRun =
        (\<lambda>_ _ _ _ _ _.
           Inr \<lparr>queryRun_outputDir = \<lparr>bqrsPath = ''/tmp/results.bqrs'', logPath = ''/tmp/log''\<rparr>,
                evaluate =
                  ([\<lparr>step = 500, maxStep = 1000, message = ''Running query''\<rparr>],
                   Inr \<lparr>outputDir = \<lparr>bqrsPath = ''/tmp/results.bqrs'', logPath = ''/tmp/log''\<rparr>,
                        resultType = SUCCESS\<rparr>)\<rparr>),
      bqrsInfo =
        (\<lambda>_. Inr \<lparr>result_sets =
                     [\<lparr>resultSetName = ''#select'', rows = 10,
                       columns = [(''apiName'', ''s''), (''supported'', ''b''), (''usage'', ''e'')]\<rparr>]\<rparr>),
      bqrsDecode = (\<lambda>_ _. Inr [''java.io.PrintStream#println(String)'']),
      decodeBqrsToExternalApiUsages = (\<lambda>chunk. chunk)\<rparr>"

text \<open>The same surroundings with no query resolved, and with no result set.\<close>

definition mock_world_no_query :: "(string list, string list) world" where
  "mock_world_no_query = mock_world\<lparr>resolveQueriesInSuite := (\<lambda>_ _. Inr [])\<rparr>"

definition mock_world_no_result_set :: "(string list, string list) world" where
  "mock_world_no_result_set = mock_world\<lparr>bqrsInfo := (\<lambda>_. Inr \<lparr>result_sets = []\<rparr>)\<rparr>"

definition initial_state :: "'u state" where
  "initial_state = \<lparr>posted = [], logged = [], calls = [], shownErrors = [], panelLoaded = False\<rparr>"

section \<open>Modules that only their tests show\<close>

subsection \<open>The selected query\<close>

text \<open>\<open>String.prototype.endsWith\<close> and \<open>startsWith\<close>.\<close>

definition endsWith :: "string \<Rightarrow> string \<Rightarrow> bool" where
  "endsWith str suffix =
     (length suffix \<le> length str \<and> drop (length str - length suffix) str = suffix)"

definition startsWith :: "string \<Rightarrow> string \<Rightarrow> bool" where
  "startsWith str pre = (take (length pre) str = pre)"

text \<open>Modelled from the spec: \<open>determineSelectedQuery\<close> of \<open>run-queries-shared\<close> is not
  among the source files; only \<open>determining-selected-query-test.ts\<close> is.  Without quick
  evaluation a URI whose path ends in \<open>.ql\<close> gives its file-system path and no quick
  evaluation position, and any other path is refused as not a CodeQL query file; with
  quick evaluation \<open>.ql\<close> and \<open>.qll\<close> are accepted and any other path is refused as not a
  CodeQL file.  The position of a quick evaluation is the editor's selection, which is a
  parameter here.\<close>

definition determineSelectedQuery :: "Position option \<Rightarrow> Uri \<Rightarrow> bool \<Rightarrow> error + SelectedQuery" where
  "determineSelectedQuery selection uri quickEval =
     (if quickEval then
        (if \<not> (endsWith (path uri) ''.ql'' \<or> endsWith (path uri) ''.qll'') then
           Inl (Error ''The selected resource is not a CodeQL file'')
         else Inr \<lparr>queryPath = fsPath uri, quickEvalPosition = selection\<rparr>)
      else
        (if \<not> endsWith (path uri) ''.ql'' then
           Inl (Error ''The selected resource is not a CodeQL query file'')
         else Inr \<lparr>queryPath = fsPath uri, quickEvalPosition = None\<rparr>))"

subsection \<open>The source archive of a database\<close>

text \<open>\<open>path.join\<close> of a directory and a relative path, and \<open>Uri.file\<close>, on a POSIX file
  system.\<close>

definition path_join :: "string \<Rightarrow> string \<Rightarrow> string" where
  "path_join dir rel = dir @ ''/'' @ rel"

definition Uri_file :: "string \<Rightarrow> Uri" where
  "Uri_file p = \<lparr>scheme = ''file'', path = p, fsPath = p\<rparr>"

text \<open>Modelled from the spec: \<open>findSourceArchive\<close> of \<open>databases\<close> is not among the source
  files; only \<open>databases.test.ts\<close> is.  For each candidate name in turn the zipped form
  \<open>name.zip\<close> under the database directory is taken if it exists, else the folder \<open>name\<close>
  if it exists, else the next name is tried; the URI returned has the candidate's path as
  its file-system path.  Which paths exist is the parameter \<open>pathExists\<close>.\<close>

fun findSourceArchive_among :: "(string \<Rightarrow> bool) \<Rightarrow> string \<Rightarrow> string list \<Rightarrow> Uri option" where
  "findSourceArchive_among pathExists databasePath [] = None"
| "findSourceArchive_among pathExists databasePath (relativePath # rest) =
     (let basePath = path_join databasePath relativePath;
          zipPath = basePath @ ''.zip''
      in if pathExists zipPath then Some (Uri_file zipPath)
         else if pathExists basePath then Some (Uri_file basePath)
         else findSourceArchive_among pathExists databasePath rest)"

definition findSourceArchive :: "(string \<Rightarrow> bool) \<Rightarrow> string \<Rightarrow> Uri option" where
  "findSourceArchive pathExists databasePath =
     findSourceArchive_among pathExists databasePath [''src'', ''output/src_archive'']"

subsection \<open>The database manager\<close>

record FullDatabaseOptions =
  dateAdded :: "int option"
  ignoreSourceArchive :: bool
  options_language :: string
  displayName :: "string option"

record DatabaseItemImpl =
  item_name :: string
  item_databaseUri :: Uri
  item_options :: FullDatabaseOptions

text \<open>An entry of the persisted list: the item's options and its URI string.\<close>

record PersistedDatabaseItem =
  persisted_uri :: string
  persisted_options :: FullDatabaseOptions

text \<open>The kinds of event that the tests observe.\<close>

datatype DatabaseEventKind = Add | Remove | Rename

record DatabaseChangedEvent =
  event_item :: "DatabaseItemImpl option"
  event_kind :: DatabaseEventKind

text \<open>The manager with what it acts on: its list of items, the workspace state (a store
  of persisted lists by key), the events fired on \<open>onDidChangeDatabaseItem\<close>, the
  extension's storage path, the folders of the workspace and the paths on disk.\<close>

record DatabaseManager =
  databaseItems :: "DatabaseItemImpl list"
  workspaceState :: "string \<rightharpoonup> PersistedDatabaseItem list"
  firedEvents :: "DatabaseChangedEvent list"
  storagePath :: string
  workspaceFolders :: "Uri list"
  disk :: "string list"

text \<open>\<open>uri.toString(true)\<close> of a URI without authority, query or fragment.\<close>

definition Uri_toString :: "Uri \<Rightarrow> string" where
  "Uri_toString uri = scheme uri @ ''://'' @ path uri"

text \<open>Modelled from the spec: what the absent class \<open>DatabaseManager\<close> persists of an
  item, how it persists its list under the key \<open>databaseList\<close>, and how it fires an event
  on \<open>onDidChangeDatabaseItem\<close> (the tests see the event's item as \<open>undefined\<close>).\<close>

definition persisted :: "DatabaseItemImpl \<Rightarrow> PersistedDatabaseItem" where
  "persisted item =
     \<lparr>persisted_uri = Uri_toString (item_databaseUri item),
      persisted_options = item_options item\<rparr>"

definition updatePersistedDatabaseList :: "DatabaseManager \<Rightarrow> DatabaseManager" where
  "updatePersistedDatabaseList m =
     m\<lparr>workspaceState := (workspaceState m)(''databaseList'' \<mapsto> map persisted (databaseItems m))\<rparr>"

definition fire :: "DatabaseEventKind \<Rightarrow> DatabaseManager \<Rightarrow> DatabaseManager" where
  "fire k m = m\<lparr>firedEvents := firedEvents m @ [\<lparr>event_item = None, event_kind = k\<rparr>]\<rparr>"

text \<open>Modelled from the spec: the class \<open>DatabaseManager\<close> of \<open>databases\<close> is not among the
  source files; only \<open>databases.test.ts\<close> is.  \<open>addDatabaseItem\<close> appends the item, persists
  the full list under the key \<open>databaseList\<close> and fires the event \<open>Add\<close>.\<close>

definition addDatabaseItem :: "DatabaseItemImpl \<Rightarrow> DatabaseManager \<Rightarrow> DatabaseManager" where
  "addDatabaseItem item m =
     fire Add (updatePersistedDatabaseList (m\<lparr>databaseItems := databaseItems m @ [item]\<rparr>))"

text \<open>Modelled from the spec: \<open>renameDatabaseItem\<close> of the absent class \<open>DatabaseManager\<close>
  gives the item its new name, kept as the \<open>displayName\<close> of its options, persists the list
  and fires the event \<open>Rename\<close>.\<close>

definition renamed :: "string \<Rightarrow> DatabaseItemImpl \<Rightarrow> DatabaseItemImpl" where
  "renamed newName item =
     item\<lparr>item_name := newName,
          item_options := (item_options item)\<lparr>displayName := Some newName\<rparr>\<rparr>"

definition renameDatabaseItem :: "DatabaseItemImpl \<Rightarrow> string \<Rightarrow> DatabaseManager \<Rightarrow> DatabaseManager" where
  "renameDatabaseItem item newName m =
     fire Rename
       (updatePersistedDatabaseList
          (m\<lparr>databaseItems :=
               map (\<lambda>i. if i = item then renamed newName i else i) (databaseItems m)\<rparr>))"

text \<open>A directory's path closed by the separator: \<open>/tmp/dir\<close> and \<open>/tmp/dir/\<close> both give
  \<open>/tmp/dir/\<close>.\<close>

definition withSeparator :: "string \<Rightarrow> string" where
  "withSeparator dir = (if endsWith dir ''/'' then dir else dir @ ''/'')"

text \<open>Modelled from the spec: a path lies under a directory when it continues the
  directory's path past a separator, by at least one more character: whole path
  components, as \<open>databases.test.ts\<close> tells a path under a directory from a path that
  merely has the directory's name as a prefix.  So \<open>/tmp/dir2/db\<close> is not under \<open>/tmp/dir\<close>,
  a directory is not under itself, and nothing lies under the empty path (no storage
  path).  Paths are taken without \<open>.\<close> and \<open>..\<close> components.\<close>

definition liesUnder :: "string \<Rightarrow> string \<Rightarrow> bool" where
  "liesUnder dir p =
     (dir \<noteq> '''' \<and> startsWith p (withSeparator dir) \<and> length (withSeparator dir) < length p)"

text \<open>Modelled from the spec: a location is controlled by the extension when it lies
  under the extension's storage path.\<close>

definition isExtensionControlledLocation :: "DatabaseManager \<Rightarrow> Uri \<Rightarrow> bool" where
  "isExtensionControlledLocation m uri = liesUnder (storagePath m) (fsPath uri)"

text \<open>\<open>fs.remove\<close> of \<open>fs-extra\<close>: the path and everything under it leave the disk.\<close>

definition fs_remove :: "string \<Rightarrow> string list \<Rightarrow> string list" where
  "fs_remove p paths = filter (\<lambda>q. \<not> (q = p \<or> liesUnder p q)) paths"

text \<open>Modelled from the spec: removing the item's workspace folder, as the call
  \<open>updateWorkspaceFolders(index, 1)\<close> at the first folder that belongs to the item.\<close>

fun removeFirstFolder :: "(Uri \<Rightarrow> bool) \<Rightarrow> Uri list \<Rightarrow> Uri list" where
  "removeFirstFolder belongs [] = []"
| "removeFirstFolder belongs (folder # rest) =
     (if belongs folder then rest else folder # removeFirstFolder belongs rest)"

text \<open>Modelled from the spec: \<open>removeDatabaseItem\<close> of the absent class \<open>DatabaseManager\<close>
  takes the item out of the list, persists the shrunken list, removes the item's folder
  from the workspace, deletes the database from the disk only if its location is
  controlled by the extension, and fires the event \<open>Remove\<close>.  Which workspace folder
  belongs to the item (\<open>belongsToSourceArchiveExplorerUri\<close>, which the tests mock) is a
  parameter.\<close>

definition removeDatabaseItem ::
  "(DatabaseItemImpl \<Rightarrow> Uri \<Rightarrow> bool) \<Rightarrow> DatabaseItemImpl \<Rightarrow> DatabaseManager \<Rightarrow> DatabaseManager" where
  "removeDatabaseItem belongsToSourceArchiveExplorerUri item m =
     (let m1 = updatePersistedDatabaseList (m\<lparr>databaseItems := remove1 item (databaseItems m)\<rparr>);
          m2 = m1\<lparr>workspaceFolders :=
                    removeFirstFolder (belongsToSourceArchiveExplorerUri item) (workspaceFolders m1)\<rparr>;
          m3 = (if isExtensionControlledLocation m2 (item_databaseUri item)
                then m2\<lparr>disk := fs_remove (fsPath (item_databaseUri item)) (disk m2)\<rparr>
                else m2)
      in fire Remove m3)"

text \<open>The manager and the item of \<open>databases.test.ts\<close>, with \<open>/tmp/dir\<close> for the temporary
  directory.\<close>

definition MOCK_DB_OPTIONS :: FullDatabaseOptions where
  "MOCK_DB_OPTIONS =
     \<lparr>dateAdded = Some 123, ignoreSourceArchive = False, options_language = '''',
      displayName = None\<rparr>"

definition mockDbItem :: DatabaseItemImpl where
  "mockDbItem =
     \<lparr>item_name = ''db'', item_databaseUri = Uri_file ''/tmp/dir/db'',
      item_options = MOCK_DB_OPTIONS\<rparr>"

definition mock_manager :: "string \<Rightarrow> DatabaseManager" where
  "mock_manager storage =
     \<lparr>databaseItems = [], workspaceState = Map.empty, firedEvents = [],
      storagePath = storage,
      workspaceFolders = [Uri_file ''/tmp/dir/src.zip''],
      disk = [''/tmp/dir/db'', ''/tmp/dir/db/db-java'', ''/tmp/dir/src.zip'']\<rparr>"

section \<open>Properties of the generated message class\<close>

text \<open>C8: the message class \<open>docs.RemoteRepositorySchema\<close> declares exactly two fields,
  both scalar strings (type 9): \<open>owner\<close> with number 1 and \<open>name\<close> with number 2, and an
  instance constructed with no data has the empty string in both.\<close>

theorem RemoteRepositorySchema_fields_and_defaults:
  "RemoteRepositorySchema_typeName = ''docs.RemoteRepositorySchema''
   \<and> length RemoteRepositorySchema_fields = 2
   \<and> map (\<lambda>f. (field_no f, field_name f, field_kind f, field_T f)) RemoteRepositorySchema_fields
       = [(1, ''owner'', ''scalar'', 9), (2, ''name'', ''scalar'', 9)]
   \<and> owner (new_RemoteRepositorySchema None) = ''''
   \<and> name (new_RemoteRepositorySchema None) = ''''"
  by (simp add: RemoteRepositorySchema_typeName_def RemoteRepositorySchema_fields_def
      new_RemoteRepositorySchema_def initPartial_def)

section \<open>Properties of the webview controller\<close>

subsection \<open>What the methods of the controller do, step by step\<close>

lemma push_suite_entries_append:
  "push_suite_entries lang packs acc =
     acc @ map (\<lambda>p. \<lparr>from_pack = p, queries = ''.'',
                       include_id = lang @ ''/telemetry/fetch-external-apis''\<rparr>) packs"
  by (induction packs arbitrary: acc) simp_all

lemma report_progress_posts:
  "report_progress ups s =
     (Inr (), s\<lparr>posted := posted s @ map (\<lambda>u. ShowProgress (step u) 1500 (message u)) ups\<rparr>)"
  by (induction ups arbitrary: s)
     (simp_all add: return_val_def andThen_def showProgress_def postMessage_def)

lemma queryRun_evaluate_effect:
  "queryRun_evaluate q s =
     (snd (evaluate q),
      s\<lparr>calls := calls s @ [Call_evaluate (logPath (queryRun_outputDir q))],
        posted := posted s
          @ map (\<lambda>u. ShowProgress (step u) 1500 (message u)) (fst (evaluate q))\<rparr>)"
  by (simp add: queryRun_evaluate_def andThen_def external_def report_progress_posts)

lemma clearProgress_effect:
  "clearProgress s = (Inr (), s\<lparr>posted := posted s @ [ShowProgress 0 0 '''']\<rparr>)"
  by (simp add: clearProgress_def showProgress_def postMessage_def)

lemma showProgress_effect:
  "showProgress \<lparr>step = a, maxStep = b, message = c\<rparr> None s
     = (Inr (), s\<lparr>posted := posted s @ [ShowProgress a b c]\<rparr>)"
  by (simp add: showProgress_def postMessage_def)

lemma runQuery_posted:
  "\<exists>new. posted (snd (runQuery w v s)) = posted s @ new
          \<and> (\<forall>m\<in>set new. msg_t m = ''showProgress'')"
  by (auto simp: runQuery_def andThen_def external_def extLogger_log_def return_val_def
        queryRun_evaluate_effect Let_def split: sum.splits)

lemma runQuery_calls_first:
  "\<exists>rest. calls (snd (runQuery w v s)) = calls s @ Call_qlpackOfDatabase (databaseItem v) # rest"
  by (auto simp: runQuery_def andThen_def external_def extLogger_log_def return_val_def
        queryRun_evaluate_effect Let_def split: sum.splits)

lemma runQuery_keeps:
  "shownErrors (snd (runQuery w v s)) = shownErrors s"
  "panelLoaded (snd (runQuery w v s)) = panelLoaded s"
  by (auto simp: runQuery_def andThen_def external_def extLogger_log_def return_val_def
        queryRun_evaluate_effect Let_def split: sum.splits)

lemma getResults_one:
  assumes "bqrsInfo w b = Inr info" and "length (result_sets info) = 1"
  shows "getResults w b s =
    (map_sum id Some (bqrsDecode w b (resultSetName (result_sets info ! 0))),
     s\<lparr>calls := calls s
          @ [Call_bqrsInfo b, Call_bqrsDecode b (resultSetName (result_sets info ! 0))],
       posted := posted s @ [ShowProgress 1200 1500 ''Decoding results'']\<rparr>)"
  using assms
  by (simp add: getResults_def andThen_def external_def showProgress_def postMessage_def
      return_val_def Let_def split: sum.splits)

lemma getResults_other:
  assumes "bqrsInfo w b = Inr info" and "length (result_sets info) \<noteq> 1"
  shows "getResults w b s =
    (Inr None,
     s\<lparr>calls := calls s @ [Call_bqrsInfo b],
       logged := logged s
         @ [''Expected exactly one result set, got ''
            @ string_of_nat (length (result_sets info))]\<rparr>)"
  using assms
  by (simp add: getResults_def andThen_def external_def extLogger_log_def return_val_def)

lemma getResults_fail:
  assumes "bqrsInfo w b = Inl e"
  shows "getResults w b s = (Inl e, s\<lparr>calls := calls s @ [Call_bqrsInfo b]\<rparr>)"
  using assms
  by (simp add: getResults_def andThen_def external_def)

text \<open>What \<open>getResults\<close> returns depends on the CLI server's answers only.\<close>

lemma getResults_fst_any_state:
  "fst (getResults w b s) = fst (getResults w b s')"
proof (cases "bqrsInfo w b")
  case (Inl e)
  then show ?thesis by (simp add: getResults_fail)
next
  case (Inr info)
  then show ?thesis
    by (cases "length (result_sets info) = 1") (simp_all add: getResults_one getResults_other)
qed

lemma getResults_Some_posted:
  assumes "fst (getResults w b s) = Inr (Some chunk)"
  shows "posted (snd (getResults w b s)) = posted s @ [ShowProgress 1200 1500 ''Decoding results'']"
    and "shownErrors (snd (getResults w b s)) = shownErrors s"
proof -
  obtain info where info: "bqrsInfo w b = Inr info"
    using assms by (cases "bqrsInfo w b") (simp_all add: getResults_fail)
  have one: "length (result_sets info) = 1"
    using assms info by (cases "length (result_sets info) = 1") (simp_all add: getResults_other)
  show "posted (snd (getResults w b s)) = posted s @ [ShowProgress 1200 1500 ''Decoding results'']"
    by (simp add: getResults_one [OF info one])
  show "shownErrors (snd (getResults w b s)) = shownErrors s"
    by (simp add: getResults_one [OF info one])
qed

subsection \<open>Reading the results file\<close>

text \<open>C2: \<open>getResults\<close> reads a BQRS file through the CLI server only.  For every path
  its first outside call is \<open>bqrsInfo\<close> on that path.  When \<open>bqrsInfo\<close> reports exactly one
  result set, the method returns what \<open>bqrsDecode\<close> gives for the path and the name of
  that result set, and these are its only two calls; for any other number of result sets
  it logs the count, returns \<open>undefined\<close> and never calls \<open>bqrsDecode\<close>.\<close>

theorem getResults_decodes_the_single_result_set:
  "(\<exists>rest. calls (snd (getResults w b s)) = calls s @ Call_bqrsInfo b # rest)
   \<and> (\<forall>info resultSet.
         bqrsInfo w b = Inr info \<and> result_sets info = [resultSet] \<longrightarrow>
           fst (getResults w b s) = map_sum id Some (bqrsDecode w b (resultSetName resultSet))
           \<and> calls (snd (getResults w b s))
               = calls s @ [Call_bqrsInfo b, Call_bqrsDecode b (resultSetName resultSet)]
           \<and> logged (snd (getResults w b s)) = logged s)
   \<and> (\<forall>info.
         bqrsInfo w b = Inr info \<and> length (result_sets info) \<noteq> 1 \<longrightarrow>
           fst (getResults w b s) = Inr None
           \<and> calls (snd (getResults w b s)) = calls s @ [Call_bqrsInfo b]
           \<and> logged (snd (getResults w b s))
               = logged s @ [''Expected exactly one result set, got ''
                              @ string_of_nat (length (result_sets info))])"
proof (intro conjI allI impI)
  show "\<exists>rest. calls (snd (getResults w b s)) = calls s @ Call_bqrsInfo b # rest"
  proof (cases "bqrsInfo w b")
    case (Inl e)
    then show ?thesis by (simp add: getResults_fail)
  next
    case (Inr info)
    then show ?thesis
      by (cases "length (result_sets info) = 1") (simp_all add: getResults_one getResults_other)
  qed
next
  fix info resultSet
  assume a: "bqrsInfo w b = Inr info \<and> result_sets info = [resultSet]"
  then have one: "length (result_sets info) = 1" and nth: "result_sets info ! 0 = resultSet"
    by simp_all
  from a have info: "bqrsInfo w b = Inr info" by simp
  show "fst (getResults w b s) = map_sum id Some (bqrsDecode w b (resultSetName resultSet))"
    by (simp add: getResults_one [OF info one] nth)
  show "calls (snd (getResults w b s))
          = calls s @ [Call_bqrsInfo b, Call_bqrsDecode b (resultSetName resultSet)]"
    by (simp add: getResults_one [OF info one] nth)
  show "logged (snd (getResults w b s)) = logged s"
    by (simp add: getResults_one [OF info one])
next
  fix info
  assume a: "bqrsInfo w b = Inr info \<and> length (result_sets info) \<noteq> 1"
  then have info: "bqrsInfo w b = Inr info" and other: "length (result_sets info) \<noteq> 1"
    by simp_all
  show "fst (getResults w b s) = Inr None"
    by (simp add: getResults_other [OF info other])
  show "calls (snd (getResults w b s)) = calls s @ [Call_bqrsInfo b]"
    by (simp add: getResults_other [OF info other])
  show "logged (snd (getResults w b s))
          = logged s @ [''Expected exactly one result set, got ''
                         @ string_of_nat (length (result_sets info))]"
    by (simp add: getResults_other [OF info other])
qed

text \<open>The test \<open>gets the result set\<close>: one result set \<open>#select\<close> is decoded; and the test
  \<open>returns undefined when there are no results\<close>.\<close>

theorem getResults_decodes_the_single_result_set_witness:
  "fst (getResults mock_world ''/tmp/results.bqrs'' initial_state)
     = Inr (Some [''java.io.PrintStream#println(String)''])
   \<and> calls (snd (getResults mock_world ''/tmp/results.bqrs'' initial_state))
       = [Call_bqrsInfo ''/tmp/results.bqrs'', Call_bqrsDecode ''/tmp/results.bqrs'' ''#select'']
   \<and> fst (getResults mock_world_no_result_set ''/tmp/results.bqrs'' initial_state) = Inr None
   \<and> calls (snd (getResults mock_world_no_result_set ''/tmp/results.bqrs'' initial_state))
       = [Call_bqrsInfo ''/tmp/results.bqrs'']
   \<and> logged (snd (getResults mock_world_no_result_set ''/tmp/results.bqrs'' initial_state))
       = [''Expected exactly one result set, got 0'']"
proof -
  have zero: "string_of_nat 0 = ''0''"
    by code_simp
  show ?thesis
    using getResults_decodes_the_single_result_set
            [of mock_world "''/tmp/results.bqrs''" initial_state]
          getResults_decodes_the_single_result_set
            [of mock_world_no_result_set "''/tmp/results.bqrs''" initial_state]
    by (simp add: mock_world_def mock_world_no_result_set_def initial_state_def zero)
qed

subsection \<open>Showing the decoded results\<close>

lemma loadExternalApiUsages_try_shows_results:
  assumes run: "runQuery w v s = (Inr (Some completed), s1)"
      and get: "getResults w (bqrsPath (outputDir completed))
                  (s1\<lparr>posted := posted s1 @ [ShowProgress 1100 1500 ''Loading results'']\<rparr>)
                = (Inr (Some chunk), s2)"
  shows "loadExternalApiUsages_try w v s =
           (Inr (),
            s2\<lparr>posted := posted s2 @
                 [ShowProgress 1450 1500 ''Finalizing results'',
                  SetExternalApiUsages (decodeBqrsToExternalApiUsages w chunk),
                  ShowProgress 0 0 '''']\<rparr>)"
  by (simp add: loadExternalApiUsages_try_def andThen_def run get showProgress_effect
      clearProgress_effect postMessage_def)

text \<open>C1: whenever the query run completes (\<open>runQuery\<close> returns a completed query, a
  successful one in particular) and reading its BQRS file yields a chunk,
  \<open>loadExternalApiUsages\<close> posts, after progress messages only, one message
  \<open>setExternalApiUsages\<close> that carries \<open>decodeBqrsToExternalApiUsages\<close> of that chunk, and
  then the message that clears the progress (step 0, maxStep 0, empty text).  It is the
  only \<open>setExternalApiUsages\<close> message of the call, no error is shown, and the method
  returns normally.\<close>

theorem loadExternalApiUsages_posts_decoded_usages:
  assumes run: "fst (runQuery w v s) = Inr (Some completed)"
      and get: "fst (getResults w (bqrsPath (outputDir completed)) s') = Inr (Some chunk)"
  shows "\<exists>progress.
           posted (snd (loadExternalApiUsages w v s))
             = posted s @ progress
                 @ [SetExternalApiUsages (decodeBqrsToExternalApiUsages w chunk),
                    ShowProgress 0 0 '''']
           \<and> (\<forall>m\<in>set progress. msg_t m = ''showProgress'')
           \<and> filter (\<lambda>m. msg_t m = ''setExternalApiUsages'')
                (progress @ [SetExternalApiUsages (decodeBqrsToExternalApiUsages w chunk),
                             ShowProgress 0 0 ''''])
               = [SetExternalApiUsages (decodeBqrsToExternalApiUsages w chunk)]
           \<and> fst (loadExternalApiUsages w v s) = Inr ()
           \<and> shownErrors (snd (loadExternalApiUsages w v s)) = shownErrors s"
proof -
  obtain s1 where run': "runQuery w v s = (Inr (Some completed), s1)"
    using run by (cases "runQuery w v s") simp
  define s1' where "s1' = s1\<lparr>posted := posted s1 @ [ShowProgress 1100 1500 ''Loading results'']\<rparr>"
  have "fst (getResults w (bqrsPath (outputDir completed)) s1') = Inr (Some chunk)"
    using get getResults_fst_any_state [of w "bqrsPath (outputDir completed)" s1' s'] by simp
  then obtain s2 where get': "getResults w (bqrsPath (outputDir completed)) s1' = (Inr (Some chunk), s2)"
    by (cases "getResults w (bqrsPath (outputDir completed)) s1'") simp
  have tried: "loadExternalApiUsages_try w v s =
           (Inr (),
            s2\<lparr>posted := posted s2 @
                 [ShowProgress 1450 1500 ''Finalizing results'',
                  SetExternalApiUsages (decodeBqrsToExternalApiUsages w chunk),
                  ShowProgress 0 0 '''']\<rparr>)"
    using loadExternalApiUsages_try_shows_results [OF run'] get' by (simp add: s1'_def)
  obtain new where new: "posted s1 = posted s @ new"
      and new_progress: "\<forall>m\<in>set new. msg_t m = ''showProgress''"
    using runQuery_posted [of w v s] run' by auto
  have p2: "posted s2 = posted s1' @ [ShowProgress 1200 1500 ''Decoding results'']"
    using getResults_Some_posted(1) [of w "bqrsPath (outputDir completed)" s1' chunk] get'
    by simp
  have e2: "shownErrors s2 = shownErrors s"
    using getResults_Some_posted(2) [of w "bqrsPath (outputDir completed)" s1' chunk] get'
      runQuery_keeps(1) [of w v s] run'
    by (simp add: s1'_def)
  define progress where "progress = new @ [ShowProgress 1100 1500 ''Loading results'',
      ShowProgress 1200 1500 ''Decoding results'', ShowProgress 1450 1500 ''Finalizing results'']"
  have all_progress: "\<forall>m\<in>set progress. msg_t m = ''showProgress''"
    using new_progress by (auto simp: progress_def)
  have no_set: "filter (\<lambda>m. msg_t m = ''setExternalApiUsages'') progress = []"
    using all_progress by (auto simp: filter_empty_conv)
  have "posted (snd (loadExternalApiUsages w v s))
             = posted s @ progress
                 @ [SetExternalApiUsages (decodeBqrsToExternalApiUsages w chunk),
                    ShowProgress 0 0 '''']"
    by (simp add: loadExternalApiUsages_def tried p2 new progress_def s1'_def)
  moreover have "filter (\<lambda>m. msg_t m = ''setExternalApiUsages'')
                (progress @ [SetExternalApiUsages (decodeBqrsToExternalApiUsages w chunk),
                             ShowProgress 0 0 ''''])
               = [SetExternalApiUsages (decodeBqrsToExternalApiUsages w chunk)]"
    by (simp add: no_set)
  moreover have "fst (loadExternalApiUsages w v s) = Inr ()"
    by (simp add: loadExternalApiUsages_def tried)
  moreover have "shownErrors (snd (loadExternalApiUsages w v s)) = shownErrors s"
    by (simp add: loadExternalApiUsages_def tried e2)
  ultimately show ?thesis
    using all_progress by blast
qed

lemma mock_runQuery:
  "runQuery mock_world mock_view initial_state =
     (Inr (Some \<lparr>outputDir = \<lparr>bqrsPath = ''/tmp/results.bqrs'', logPath = ''/tmp/log''\<rparr>,
                 resultType = SUCCESS\<rparr>),
      \<lparr>posted = [ShowProgress 500 1500 ''Running query''],
       logged = [],
       calls =
         [Call_qlpackOfDatabase (databaseItem mock_view),
          Call_file ''.qls'',
          Call_writeFile ''/tmp/tmp-1.qls''
            (mock_dump
               [\<lparr>from_pack = ''codeql/java-all'', queries = ''.'',
                 include_id = ''java/telemetry/fetch-external-apis''\<rparr>,
                \<lparr>from_pack = ''codeql/java-queries'', queries = ''.'',
                 include_id = ''java/telemetry/fetch-external-apis''\<rparr>])
            ''utf8'',
          Call_resolveQueriesInSuite ''/tmp/tmp-1.qls'' [],
          Call_createQueryRun ''/a/b/c/src.zip''
            \<lparr>queryPath = ''/home/github/codeql/java/ql/src/Telemetry/FetchExternalAPIs.ql'',
             quickEvalPosition = None\<rparr>
            False [] None ''/tmp/queries'',
          Call_evaluate ''/tmp/log''],
       shownErrors = [],
       panelLoaded = False\<rparr>)"
  by (simp add: runQuery_def andThen_def external_def return_val_def queryRun_evaluate_effect
      packsToSearch_def mock_world_def mock_view_def initial_state_def Let_def)

text \<open>With the mocked surroundings: the messages of one load, in order.\<close>

theorem loadExternalApiUsages_posts_decoded_usages_witness:
  "fst (runQuery mock_world mock_view initial_state)
     = Inr (Some \<lparr>outputDir = \<lparr>bqrsPath = ''/tmp/results.bqrs'', logPath = ''/tmp/log''\<rparr>,
                  resultType = SUCCESS\<rparr>)
   \<and> fst (getResults mock_world ''/tmp/results.bqrs'' initial_state)
       = Inr (Some [''java.io.PrintStream#println(String)''])
   \<and> posted (snd (loadExternalApiUsages mock_world mock_view initial_state))
       = [ShowProgress 500 1500 ''Running query'',
          ShowProgress 1100 1500 ''Loading results'',
          ShowProgress 1200 1500 ''Decoding results'',
          ShowProgress 1450 1500 ''Finalizing results'',
          SetExternalApiUsages [''java.io.PrintStream#println(String)''],
          ShowProgress 0 0 '''']"
proof -
  let ?completed = "\<lparr>outputDir = \<lparr>bqrsPath = ''/tmp/results.bqrs'', logPath = ''/tmp/log''\<rparr>,
                     resultType = SUCCESS\<rparr>"
  have run: "fst (runQuery mock_world mock_view initial_state) = Inr (Some ?completed)"
    by (simp add: mock_runQuery)
  have info: "bqrsInfo mock_world ''/tmp/results.bqrs''
                = Inr \<lparr>result_sets =
                     [\<lparr>resultSetName = ''#select'', rows = 10,
                       columns = [(''apiName'', ''s''), (''supported'', ''b''), (''usage'', ''e'')]\<rparr>]\<rparr>"
    by (simp add: mock_world_def)
  have dec: "\<And>p n. bqrsDecode mock_world p n = Inr [''java.io.PrintStream#println(String)'']"
    by (simp add: mock_world_def)
  have usages: "\<And>c. decodeBqrsToExternalApiUsages mock_world c = c"
    by (simp add: mock_world_def)
  have get_eq: "\<And>s. getResults mock_world ''/tmp/results.bqrs'' s
      = (Inr (Some [''java.io.PrintStream#println(String)'']),
         s\<lparr>calls := calls s
              @ [Call_bqrsInfo ''/tmp/results.bqrs'', Call_bqrsDecode ''/tmp/results.bqrs'' ''#select''],
           posted := posted s @ [ShowProgress 1200 1500 ''Decoding results'']\<rparr>)"
    by (simp add: getResults_one [OF info] dec)
  have get: "fst (getResults mock_world (bqrsPath (outputDir ?completed)) initial_state)
               = Inr (Some [''java.io.PrintStream#println(String)''])"
    by (simp add: get_eq)
  have load: "posted (snd (loadExternalApiUsages mock_world mock_view initial_state))
      = [ShowProgress 500 1500 ''Running query'',
          ShowProgress 1100 1500 ''Loading results'',
          ShowProgress 1200 1500 ''Decoding results'',
          ShowProgress 1450 1500 ''Finalizing results'',
          SetExternalApiUsages [''java.io.PrintStream#println(String)''],
          ShowProgress 0 0 '''']"
    by (simp add: loadExternalApiUsages_def loadExternalApiUsages_try_def andThen_def
        mock_runQuery showProgress_effect clearProgress_effect postMessage_def
        get_eq usages)
  from loadExternalApiUsages_posts_decoded_usages [OF run get] run get load
  show ?thesis by simp
qed

subsection \<open>Messages from the webview\<close>

lemma loadExternalApiUsages_calls_first:
  "\<exists>rest. calls (snd (loadExternalApiUsages w v s))
           = calls s @ Call_qlpackOfDatabase (databaseItem v) # rest"
proof -
  obtain r1 s1 where run: "runQuery w v s = (r1, s1)"
    by (cases "runQuery w v s")
  obtain rest1 where c1: "calls s1 = calls s @ Call_qlpackOfDatabase (databaseItem v) # rest1"
    using runQuery_calls_first [of w v s] run by auto
  have grow: "\<exists>more. calls (snd (getResults w b t)) = calls t @ more" for b t
  proof (cases "bqrsInfo w b")
    case (Inl e)
    then show ?thesis by (simp add: getResults_fail)
  next
    case (Inr info)
    then show ?thesis
      by (cases "length (result_sets info) = 1") (simp_all add: getResults_one getResults_other)
  qed
  have "\<exists>more. calls (snd (loadExternalApiUsages_try w v s)) = calls s1 @ more"
  proof (cases r1)
    case (Inl e)
    then show ?thesis by (simp add: loadExternalApiUsages_try_def andThen_def run)
  next
    case (Inr queryResult)
    show ?thesis
    proof (cases queryResult)
      case None
      then show ?thesis
        by (simp add: loadExternalApiUsages_try_def andThen_def run Inr clearProgress_effect)
    next
      case (Some completed)
      define t where "t = s1\<lparr>posted := posted s1 @ [ShowProgress 1100 1500 ''Loading results'']\<rparr>"
      obtain more where more: "calls (snd (getResults w (bqrsPath (outputDir completed)) t))
                                 = calls t @ more"
        using grow by blast
      obtain r2 s2 where get: "getResults w (bqrsPath (outputDir completed)) t = (r2, s2)"
        by (cases "getResults w (bqrsPath (outputDir completed)) t")
      have c2: "calls s2 = calls s1 @ more"
        using more get by (simp add: t_def)
      show ?thesis
        using c2 get
        by (auto simp: loadExternalApiUsages_try_def andThen_def run Inr Some showProgress_effect
            clearProgress_effect postMessage_def t_def split: sum.splits option.splits)
    qed
  qed
  then obtain more where "calls (snd (loadExternalApiUsages_try w v s)) = calls s1 @ more"
    by blast
  then have "calls (snd (loadExternalApiUsages w v s))
               = calls s @ Call_qlpackOfDatabase (databaseItem v) # (rest1 @ more)"
    by (cases "loadExternalApiUsages_try w v s")
       (auto simp: loadExternalApiUsages_def c1 split: sum.splits)
  then show ?thesis by blast
qed

lemma loadExternalApiUsages_returns:
  "fst (loadExternalApiUsages w v s) = Inr ()"
  by (cases "loadExternalApiUsages_try w v s")
     (auto simp: loadExternalApiUsages_def split: sum.splits)

text \<open>C6: \<open>onMessage\<close> starts the loading of the external API usages exactly for a
  message whose tag \<open>t\<close> is \<open>viewLoaded\<close>: then it is \<open>onWebViewLoaded\<close>, that is the base
  class's step followed by \<open>loadExternalApiUsages\<close>, whose first outside call is the one
  that \<open>runQuery\<close> starts with, and it returns normally.  For every other tag it throws
  the error \<open>Unexpected message type\<close> and does nothing else.\<close>

theorem onMessage_loads_exactly_on_viewLoaded:
  "(from_t msg = ''viewLoaded'' \<longrightarrow>
      onMessage w v msg s = onWebViewLoaded w v s
      \<and> onMessage w v msg s = loadExternalApiUsages w v (s\<lparr>panelLoaded := True\<rparr>)
      \<and> fst (onMessage w v msg s) = Inr ())
   \<and> (from_t msg \<noteq> ''viewLoaded'' \<longrightarrow>
      onMessage w v msg s = (Inl (Error ''Unexpected message type''), s))
   \<and> ((\<exists>rest. calls (snd (onMessage w v msg s))
                 = calls s @ Call_qlpackOfDatabase (databaseItem v) # rest)
        \<longleftrightarrow> from_t msg = ''viewLoaded'')"
proof -
  have loaded: "onMessage w v msg s = loadExternalApiUsages w v (s\<lparr>panelLoaded := True\<rparr>)"
    if "from_t msg = ''viewLoaded''"
    using that by (simp add: onMessage_def onWebViewLoaded_def andThen_def super_onWebViewLoaded_def)
  have other: "onMessage w v msg s = (Inl (Error ''Unexpected message type''), s)"
    if "from_t msg \<noteq> ''viewLoaded''"
    using that by (simp add: onMessage_def throw_def)
  have starts: "\<exists>rest. calls (snd (onMessage w v msg s))
                 = calls s @ Call_qlpackOfDatabase (databaseItem v) # rest"
    if "from_t msg = ''viewLoaded''"
    using loadExternalApiUsages_calls_first [of w v "s\<lparr>panelLoaded := True\<rparr>"] loaded [OF that]
    by simp
  have not_starts: "\<not> (\<exists>rest. calls (snd (onMessage w v msg s))
                 = calls s @ Call_qlpackOfDatabase (databaseItem v) # rest)"
    if "from_t msg \<noteq> ''viewLoaded''"
    by (simp add: other [OF that])
  show ?thesis
    using loaded other starts not_starts loadExternalApiUsages_returns [of w v "s\<lparr>panelLoaded := True\<rparr>"]
    by (auto simp: onMessage_def)
qed

text \<open>A \<open>viewLoaded\<close> message under the mocked surroundings runs the query and posts the
  usages; a message with another tag is refused.\<close>

theorem onMessage_loads_exactly_on_viewLoaded_witness:
  "from_t (FromWebview ''viewLoaded'') = ''viewLoaded''
   \<and> fst (onMessage mock_world mock_view (FromWebview ''viewLoaded'') initial_state) = Inr ()
   \<and> (\<exists>rest. calls (snd (onMessage mock_world mock_view (FromWebview ''viewLoaded'') initial_state))
         = calls (initial_state :: string list state)
             @ Call_qlpackOfDatabase (databaseItem mock_view) # rest)
   \<and> from_t (FromWebview ''saveModeledMethods'') \<noteq> ''viewLoaded''
   \<and> onMessage mock_world mock_view (FromWebview ''saveModeledMethods'') initial_state
       = (Inl (Error ''Unexpected message type''), initial_state)"
proof -
  have sel1: "from_t (FromWebview ''viewLoaded'') = ''viewLoaded''"
    by simp
  have sel2: "from_t (FromWebview ''saveModeledMethods'') \<noteq> ''viewLoaded''"
    by simp
  show ?thesis
    using onMessage_loads_exactly_on_viewLoaded
            [of "FromWebview ''viewLoaded''" mock_world mock_view initial_state]
          onMessage_loads_exactly_on_viewLoaded
            [of "FromWebview ''saveModeledMethods''" mock_world mock_view initial_state]
          sel1 sel2
    by blast
qed

subsection \<open>The query suite and the resolved queries\<close>

lemma runQuery_until_writeFile:
  assumes "qlpackOfDatabase w (databaseItem v) = Inr qlpacks"
      and "tmp_file w ''.qls'' = Inr suiteFile"
  shows "\<exists>rest. calls (snd (runQuery w v s))
           = calls s
               @ [Call_qlpackOfDatabase (databaseItem v),
                  Call_file ''.qls'',
                  Call_writeFile suiteFile
                    (dump w (push_suite_entries (language (databaseItem v)) (packsToSearch qlpacks) []))
                    ''utf8'']
               @ rest"
  using assms
  by (auto simp: runQuery_def andThen_def external_def extLogger_log_def return_val_def
        queryRun_evaluate_effect Let_def split: sum.splits)

lemma suiteYaml_entries:
  "push_suite_entries lang (packsToSearch qlpacks) [] =
     (case queryPack qlpacks of
        None \<Rightarrow>
          [\<lparr>from_pack = dbschemePack qlpacks, queries = ''.'',
            include_id = lang @ ''/telemetry/fetch-external-apis''\<rparr>]
      | Some q \<Rightarrow>
          if q = '''' then
            [\<lparr>from_pack = dbschemePack qlpacks, queries = ''.'',
              include_id = lang @ ''/telemetry/fetch-external-apis''\<rparr>]
          else
            [\<lparr>from_pack = dbschemePack qlpacks, queries = ''.'',
              include_id = lang @ ''/telemetry/fetch-external-apis''\<rparr>,
             \<lparr>from_pack = q, queries = ''.'',
              include_id = lang @ ''/telemetry/fetch-external-apis''\<rparr>])"
  by (simp add: push_suite_entries_append packsToSearch_def split: option.splits)

text \<open>C7: once the qlpacks of the database are known and the temporary \<open>.qls\<close> file exists,
  \<open>runQuery\<close> writes to that file the dump of a list that depends on the qlpacks and the
  database language only: first the entry of the \<open>dbschemePack\<close>, then, exactly when the
  qlpacks hold a \<open>queryPack\<close> (a pack name, which JavaScript takes as present when it is
  defined and not the empty string), the entry of that \<open>queryPack\<close>.  Every entry is
  \<open>{from: pack, queries: ".", include: {id: "<language>/telemetry/fetch-external-apis"}}\<close>.\<close>

theorem runQuery_writes_the_suite_of_the_qlpacks:
  assumes "qlpackOfDatabase w (databaseItem v) = Inr qlpacks"
      and "tmp_file w ''.qls'' = Inr suiteFile"
  shows "\<exists>suiteYaml rest.
           calls (snd (runQuery w v s))
             = calls s
                 @ [Call_qlpackOfDatabase (databaseItem v),
                    Call_file ''.qls'',
                    Call_writeFile suiteFile (dump w suiteYaml) ''utf8'']
                 @ rest
           \<and> suiteYaml
               = map (\<lambda>pack. \<lparr>from_pack = pack, queries = ''.'',
                                include_id = language (databaseItem v)
                                  @ ''/telemetry/fetch-external-apis''\<rparr>)
                   (dbschemePack qlpacks
                    # (case queryPack qlpacks of
                         None \<Rightarrow> []
                       | Some q \<Rightarrow> if q = '''' then [] else [q]))
           \<and> (length suiteYaml = 2 \<longleftrightarrow> (\<exists>q. queryPack qlpacks = Some q \<and> q \<noteq> ''''))
           \<and> (length suiteYaml = 1 \<longleftrightarrow> \<not> (\<exists>q. queryPack qlpacks = Some q \<and> q \<noteq> ''''))"
proof -
  obtain rest where rest: "calls (snd (runQuery w v s))
           = calls s
               @ [Call_qlpackOfDatabase (databaseItem v),
                  Call_file ''.qls'',
                  Call_writeFile suiteFile
                    (dump w (push_suite_entries (language (databaseItem v)) (packsToSearch qlpacks) []))
                    ''utf8'']
               @ rest"
    using runQuery_until_writeFile [OF assms] by blast
  define suiteYaml where
    "suiteYaml = push_suite_entries (language (databaseItem v)) (packsToSearch qlpacks) []"
  have shape: "suiteYaml
               = map (\<lambda>pack. \<lparr>from_pack = pack, queries = ''.'',
                                include_id = language (databaseItem v)
                                  @ ''/telemetry/fetch-external-apis''\<rparr>)
                   (dbschemePack qlpacks
                    # (case queryPack qlpacks of
                         None \<Rightarrow> []
                       | Some q \<Rightarrow> if q = '''' then [] else [q]))"
    by (simp add: suiteYaml_def suiteYaml_entries split: option.splits)
  have two: "length suiteYaml = 2 \<longleftrightarrow> (\<exists>q. queryPack qlpacks = Some q \<and> q \<noteq> '''')"
    by (simp add: shape split: option.splits)
  have one: "length suiteYaml = 1 \<longleftrightarrow> \<not> (\<exists>q. queryPack qlpacks = Some q \<and> q \<noteq> '''')"
    by (simp add: shape split: option.splits)
  from rest shape two one show ?thesis
    unfolding suiteYaml_def by blast
qed

text \<open>The test \<open>runs the query\<close>: the packs \<open>codeql/java-all\<close> and \<open>codeql/java-queries\<close> of a
  Java database give the two entries that the test reads back from the suite file.\<close>

theorem runQuery_writes_the_suite_of_the_qlpacks_witness:
  "qlpackOfDatabase mock_world (databaseItem mock_view)
     = Inr \<lparr>dbschemePack = ''codeql/java-all'', dbschemePackIsLibraryPack = False,
            queryPack = Some ''codeql/java-queries''\<rparr>
   \<and> tmp_file mock_world ''.qls'' = Inr ''/tmp/tmp-1.qls''
   \<and> take 3 (calls (snd (runQuery mock_world mock_view initial_state)))
       = [Call_qlpackOfDatabase (databaseItem mock_view),
          Call_file ''.qls'',
          Call_writeFile ''/tmp/tmp-1.qls''
            (dump mock_world
               [\<lparr>from_pack = ''codeql/java-all'', queries = ''.'',
                 include_id = ''java/telemetry/fetch-external-apis''\<rparr>,
                \<lparr>from_pack = ''codeql/java-queries'', queries = ''.'',
                 include_id = ''java/telemetry/fetch-external-apis''\<rparr>])
            ''utf8'']"
proof -
  have packs: "qlpackOfDatabase mock_world (databaseItem mock_view)
     = Inr \<lparr>dbschemePack = ''codeql/java-all'', dbschemePackIsLibraryPack = False,
            queryPack = Some ''codeql/java-queries''\<rparr>"
    by (simp add: mock_world_def)
  have tmp: "tmp_file mock_world ''.qls'' = Inr ''/tmp/tmp-1.qls''"
    by (simp add: mock_world_def)
  have lang: "language (databaseItem mock_view) = ''java''"
    by (simp add: mock_view_def)
  have start: "calls (initial_state :: string list state) = []"
    by (simp add: initial_state_def)
  from runQuery_writes_the_suite_of_the_qlpacks [OF packs tmp, of initial_state]
  obtain suiteYaml rest where
    calls: "calls (snd (runQuery mock_world mock_view initial_state))
             = calls (initial_state :: string list state)
                 @ [Call_qlpackOfDatabase (databaseItem mock_view),
                    Call_file ''.qls'',
                    Call_writeFile ''/tmp/tmp-1.qls'' (dump mock_world suiteYaml) ''utf8'']
                 @ rest"
    and shape: "suiteYaml
               = map (\<lambda>pack. \<lparr>from_pack = pack, queries = ''.'',
                                include_id = language (databaseItem mock_view)
                                  @ ''/telemetry/fetch-external-apis''\<rparr>)
                   [''codeql/java-all'', ''codeql/java-queries'']"
    by auto
  have "take 3 (calls (snd (runQuery mock_world mock_view initial_state)))
       = [Call_qlpackOfDatabase (databaseItem mock_view),
          Call_file ''.qls'',
          Call_writeFile ''/tmp/tmp-1.qls'' (dump mock_world suiteYaml) ''utf8'']"
    by (simp add: calls start)
  then show ?thesis
    using packs tmp by (simp add: shape lang)
qed

text \<open>C9: if \<open>resolveQueriesInSuite\<close> resolves a number of queries other than one (the
  steps before it having succeeded), then \<open>runQuery\<close> logs the count and returns
  \<open>undefined\<close>; the outside calls of the whole load are the four up to
  \<open>resolveQueriesInSuite\<close>, so \<open>createQueryRun\<close> is never called and no query runs;
  and \<open>loadExternalApiUsages\<close> posts the progress-clearing message and nothing else, in
  particular no results message.\<close>

theorem runQuery_stops_unless_one_query:
  assumes packs: "qlpackOfDatabase w (databaseItem v) = Inr qlpacks"
      and tmp: "tmp_file w ''.qls'' = Inr suiteFile"
      and written: "writeFile w suiteFile
                      (dump w (push_suite_entries (language (databaseItem v))
                                 (packsToSearch qlpacks) []))
                      ''utf8'' = Inr ()"
      and resolved: "resolveQueriesInSuite w suiteFile (getOnDiskWorkspaceFolders w) = Inr found"
      and count: "length found \<noteq> 1"
  shows "fst (runQuery w v s) = Inr None
       \<and> logged (snd (runQuery w v s))
           = logged s @ [''Expected exactly one query, got '' @ string_of_nat (length found)]
       \<and> calls (snd (runQuery w v s))
           = calls s
               @ [Call_qlpackOfDatabase (databaseItem v),
                  Call_file ''.qls'',
                  Call_writeFile suiteFile
                    (dump w (push_suite_entries (language (databaseItem v))
                               (packsToSearch qlpacks) []))
                    ''utf8'',
                  Call_resolveQueriesInSuite suiteFile (getOnDiskWorkspaceFolders w)]
       \<and> calls (snd (loadExternalApiUsages w v s)) = calls (snd (runQuery w v s))
       \<and> posted (snd (loadExternalApiUsages w v s)) = posted s @ [ShowProgress 0 0 '''']
       \<and> fst (loadExternalApiUsages w v s) = Inr ()
       \<and> shownErrors (snd (loadExternalApiUsages w v s)) = shownErrors s"
proof -
  have run: "runQuery w v s =
    (Inr None,
     s\<lparr>calls := calls s
               @ [Call_qlpackOfDatabase (databaseItem v),
                  Call_file ''.qls'',
                  Call_writeFile suiteFile
                    (dump w (push_suite_entries (language (databaseItem v))
                               (packsToSearch qlpacks) []))
                    ''utf8'',
                  Call_resolveQueriesInSuite suiteFile (getOnDiskWorkspaceFolders w)],
       logged := logged s
               @ [''Expected exactly one query, got '' @ string_of_nat (length found)]\<rparr>)"
    using assms
    by (simp add: runQuery_def andThen_def external_def extLogger_log_def return_val_def Let_def)
  have load: "loadExternalApiUsages w v s =
    (Inr (), (snd (runQuery w v s))\<lparr>posted := posted s @ [ShowProgress 0 0 '''']\<rparr>)"
    by (simp add: loadExternalApiUsages_def loadExternalApiUsages_try_def andThen_def run
        clearProgress_effect)
  show ?thesis
    by (simp add: load) (simp add: run)
qed

text \<open>The mocked surroundings with an empty list of resolved queries.\<close>

theorem runQuery_stops_unless_one_query_witness:
  "fst (runQuery mock_world_no_query mock_view initial_state) = Inr None
   \<and> logged (snd (runQuery mock_world_no_query mock_view initial_state))
       = [''Expected exactly one query, got 0'']
   \<and> posted (snd (loadExternalApiUsages mock_world_no_query mock_view initial_state))
       = [ShowProgress 0 0 '''']
   \<and> length (calls (snd (loadExternalApiUsages mock_world_no_query mock_view initial_state))) = 4"
proof -
  let ?qlpacks = "\<lparr>dbschemePack = ''codeql/java-all'', dbschemePackIsLibraryPack = False,
                   queryPack = Some ''codeql/java-queries''\<rparr>"
  have packs: "qlpackOfDatabase mock_world_no_query (databaseItem mock_view) = Inr ?qlpacks"
    by (simp add: mock_world_no_query_def mock_world_def)
  have tmp: "tmp_file mock_world_no_query ''.qls'' = Inr ''/tmp/tmp-1.qls''"
    by (simp add: mock_world_no_query_def mock_world_def)
  have written: "writeFile mock_world_no_query ''/tmp/tmp-1.qls''
                      (dump mock_world_no_query
                         (push_suite_entries (language (databaseItem mock_view))
                            (packsToSearch ?qlpacks) []))
                      ''utf8'' = Inr ()"
    by (simp add: mock_world_no_query_def mock_world_def)
  have resolved: "resolveQueriesInSuite mock_world_no_query ''/tmp/tmp-1.qls''
                    (getOnDiskWorkspaceFolders mock_world_no_query) = Inr []"
    by (simp add: mock_world_no_query_def mock_world_def)
  have count: "length ([] :: string list) \<noteq> 1"
    by simp
  have zero: "string_of_nat 0 = ''0''"
    by code_simp
  have start: "calls (initial_state :: string list state) = []"
      "logged (initial_state :: string list state) = []"
      "posted (initial_state :: string list state) = []"
    by (simp_all add: initial_state_def)
  from runQuery_stops_unless_one_query [OF packs tmp written resolved count, of initial_state]
  show ?thesis
    by (simp add: start zero)
qed

section \<open>Properties of the modules that only their tests show\<close>

subsection \<open>Which file is a query\<close>

lemma endsWith_append:
  "endsWith str suffix \<longleftrightarrow> (\<exists>front. str = front @ suffix)"
proof
  assume "endsWith str suffix"
  then have "str = take (length str - length suffix) str @ suffix"
    by (metis append_take_drop_id endsWith_def)
  then show "\<exists>front. str = front @ suffix" ..
next
  assume "\<exists>front. str = front @ suffix"
  then show "endsWith str suffix"
    by (auto simp: endsWith_def)
qed

text \<open>A library file \<open>.qll\<close> is not a query file \<open>.ql\<close>: the letter before the last
  differs.\<close>

lemma qll_is_not_ql:
  assumes "endsWith p ''.qll''"
  shows "\<not> endsWith p ''.ql''"
proof
  assume "endsWith p ''.ql''"
  then obtain a where a: "p = a @ ''.ql''"
    using endsWith_append by blast
  from assms obtain b where b: "p = b @ ''.qll''"
    using endsWith_append by blast
  have "rev p ! 1 = CHR ''q''"
    by (simp add: a)
  moreover have "rev p ! 1 = CHR ''l''"
    by (simp add: b)
  ultimately show False
    by simp
qed

text \<open>C3: without quick evaluation, \<open>determineSelectedQuery\<close> returns the file-system path
  of the URI as \<open>queryPath\<close> and no \<open>quickEvalPosition\<close> for every URI whose path ends in
  \<open>.ql\<close>, and throws \<open>The selected resource is not a CodeQL query file\<close> for every other
  path, a path ending in \<open>.qll\<close> included.  With quick evaluation, paths ending in \<open>.ql\<close>
  or \<open>.qll\<close> are accepted, with the file-system path as \<open>queryPath\<close>, and every other path
  makes it throw \<open>The selected resource is not a CodeQL file\<close>.\<close>

theorem determineSelectedQuery_accepts_by_extension:
  "(endsWith (path uri) ''.ql'' \<longrightarrow>
      determineSelectedQuery selection uri False
        = Inr \<lparr>queryPath = fsPath uri, quickEvalPosition = None\<rparr>)
   \<and> (\<not> endsWith (path uri) ''.ql'' \<longrightarrow>
      determineSelectedQuery selection uri False
        = Inl (Error ''The selected resource is not a CodeQL query file''))
   \<and> (endsWith (path uri) ''.qll'' \<longrightarrow>
      determineSelectedQuery selection uri False
        = Inl (Error ''The selected resource is not a CodeQL query file''))
   \<and> (endsWith (path uri) ''.ql'' \<or> endsWith (path uri) ''.qll'' \<longrightarrow>
      (\<exists>position. determineSelectedQuery selection uri True
                    = Inr \<lparr>queryPath = fsPath uri, quickEvalPosition = position\<rparr>))
   \<and> (\<not> (endsWith (path uri) ''.ql'' \<or> endsWith (path uri) ''.qll'') \<longrightarrow>
      determineSelectedQuery selection uri True
        = Inl (Error ''The selected resource is not a CodeQL file''))"
  using qll_is_not_ql [of "path uri"]
  by (auto simp: determineSelectedQuery_def)

text \<open>The URIs of the test: \<open>file:///tmp/queryname.ql\<close>, \<open>.qll\<close> and \<open>.txt\<close>.\<close>

theorem determineSelectedQuery_accepts_by_extension_witness:
  "determineSelectedQuery None (Uri_file ''/tmp/queryname.ql'') False
     = Inr \<lparr>queryPath = ''/tmp/queryname.ql'', quickEvalPosition = None\<rparr>
   \<and> determineSelectedQuery None (Uri_file ''/tmp/queryname.txt'') False
       = Inl (Error ''The selected resource is not a CodeQL query file'')
   \<and> determineSelectedQuery None (Uri_file ''/tmp/queryname.qll'') False
       = Inl (Error ''The selected resource is not a CodeQL query file'')
   \<and> (\<exists>position. determineSelectedQuery (Some (Position ''library.qll'' 1 1 1 5))
                    (Uri_file ''/data/library.qll'') True
         = Inr \<lparr>queryPath = ''/data/library.qll'', quickEvalPosition = position\<rparr>)
   \<and> determineSelectedQuery None (Uri_file ''/tmp/queryname.txt'') True
       = Inl (Error ''The selected resource is not a CodeQL file'')"
proof -
  have ql: "endsWith (path (Uri_file ''/tmp/queryname.ql'')) ''.ql''"
    by (simp add: endsWith_def Uri_file_def)
  have qll: "endsWith (path (Uri_file ''/tmp/queryname.qll'')) ''.qll''"
    by (simp add: endsWith_def Uri_file_def)
  have lib: "endsWith (path (Uri_file ''/data/library.qll'')) ''.qll''"
    by (simp add: endsWith_def Uri_file_def)
  have other: "\<not> endsWith (path (Uri_file ''/tmp/queryname.txt'')) ''.ql''"
      "\<not> endsWith (path (Uri_file ''/tmp/queryname.txt'')) ''.qll''"
    by (simp_all add: endsWith_def Uri_file_def)
  have fs: "fsPath (Uri_file ''/tmp/queryname.ql'') = ''/tmp/queryname.ql''"
      "fsPath (Uri_file ''/data/library.qll'') = ''/data/library.qll''"
    by (simp_all add: Uri_file_def)
  show ?thesis
    using determineSelectedQuery_accepts_by_extension [of "Uri_file ''/tmp/queryname.ql''" None]
      determineSelectedQuery_accepts_by_extension [of "Uri_file ''/tmp/queryname.txt''" None]
      determineSelectedQuery_accepts_by_extension [of "Uri_file ''/tmp/queryname.qll''" None]
      determineSelectedQuery_accepts_by_extension
        [of "Uri_file ''/data/library.qll''" "Some (Position ''library.qll'' 1 1 1 5)"]
      ql qll lib other
    unfolding fs
    by blast
qed

subsection \<open>Where the source archive is found\<close>

text \<open>The candidates in the order of their priority.\<close>

lemma findSourceArchive_among_find:
  "findSourceArchive_among pathExists databasePath names =
     map_option Uri_file
       (find pathExists
          (concat (map (\<lambda>n. [path_join databasePath n @ ''.zip'', path_join databasePath n])
                     names)))"
  by (induction names) (simp_all add: Let_def)

text \<open>C4: \<open>findSourceArchive\<close> returns the first existing one of the candidates
  \<open>src.zip\<close>, \<open>src\<close>, \<open>output/src_archive.zip\<close>, \<open>output/src_archive\<close> under the database
  directory, in this order: for each name the zipped form before the folder, and both
  forms of \<open>src\<close> before both of \<open>output/src_archive\<close>.  The file-system path of the URI
  returned is the path of that candidate, and nothing is returned only if no candidate
  exists.\<close>

theorem findSourceArchive_first_existing_candidate:
  "findSourceArchive pathExists databasePath =
     map_option Uri_file
       (find pathExists
          [path_join databasePath ''src.zip'',
           path_join databasePath ''src'',
           path_join databasePath ''output/src_archive.zip'',
           path_join databasePath ''output/src_archive''])
   \<and> (\<forall>uri. findSourceArchive pathExists databasePath = Some uri \<longrightarrow>
         pathExists (fsPath uri)
         \<and> fsPath uri \<in> set [path_join databasePath ''src.zip'',
                              path_join databasePath ''src'',
                              path_join databasePath ''output/src_archive.zip'',
                              path_join databasePath ''output/src_archive''])
   \<and> (pathExists (path_join databasePath ''src.zip'') \<longrightarrow>
         map_option fsPath (findSourceArchive pathExists databasePath)
           = Some (path_join databasePath ''src.zip''))
   \<and> (\<not> pathExists (path_join databasePath ''src.zip'')
        \<and> pathExists (path_join databasePath ''src'') \<longrightarrow>
         map_option fsPath (findSourceArchive pathExists databasePath)
           = Some (path_join databasePath ''src''))
   \<and> (\<not> pathExists (path_join databasePath ''src.zip'')
        \<and> \<not> pathExists (path_join databasePath ''src'')
        \<and> pathExists (path_join databasePath ''output/src_archive.zip'') \<longrightarrow>
         map_option fsPath (findSourceArchive pathExists databasePath)
           = Some (path_join databasePath ''output/src_archive.zip''))
   \<and> (\<not> pathExists (path_join databasePath ''src.zip'')
        \<and> \<not> pathExists (path_join databasePath ''src'')
        \<and> \<not> pathExists (path_join databasePath ''output/src_archive.zip'')
        \<and> pathExists (path_join databasePath ''output/src_archive'') \<longrightarrow>
         map_option fsPath (findSourceArchive pathExists databasePath)
           = Some (path_join databasePath ''output/src_archive''))
   \<and> (findSourceArchive pathExists databasePath = None \<longleftrightarrow>
         \<not> pathExists (path_join databasePath ''src.zip'')
         \<and> \<not> pathExists (path_join databasePath ''src'')
         \<and> \<not> pathExists (path_join databasePath ''output/src_archive.zip'')
         \<and> \<not> pathExists (path_join databasePath ''output/src_archive''))"
proof -
  have zip: "path_join databasePath n @ ''.zip'' = path_join databasePath (n @ ''.zip'')" for n
    by (simp add: path_join_def)
  have eq: "findSourceArchive pathExists databasePath =
     map_option Uri_file
       (find pathExists
          [path_join databasePath ''src.zip'',
           path_join databasePath ''src'',
           path_join databasePath ''output/src_archive.zip'',
           path_join databasePath ''output/src_archive''])"
    unfolding findSourceArchive_def findSourceArchive_among_find
    using zip [of "''src''"] zip [of "''output/src_archive''"]
    by simp
  have fs: "fsPath (Uri_file p) = p" for p
    by (simp add: Uri_file_def)
  show ?thesis
    unfolding eq by (auto simp: fs)
qed

text \<open>The tests \<open>should prioritize src.zip over src\<close> and \<open>should find source folder in
  output/src_archive\<close>, in the database directory \<open>/tmp/dir\<close>.\<close>

theorem findSourceArchive_first_existing_candidate_witness:
  "map_option fsPath
     (findSourceArchive (\<lambda>p. p \<in> set [''/tmp/dir/src'', ''/tmp/dir/src.zip'']) ''/tmp/dir'')
     = Some ''/tmp/dir/src.zip''
   \<and> map_option fsPath
       (findSourceArchive (\<lambda>p. p \<in> set [''/tmp/dir/output/src_archive'']) ''/tmp/dir'')
       = Some ''/tmp/dir/output/src_archive''
   \<and> findSourceArchive (\<lambda>p. p \<in> set [''/tmp/dir/db-java'']) ''/tmp/dir'' = None"
  using findSourceArchive_first_existing_candidate
          [of "\<lambda>p. p \<in> set [''/tmp/dir/src'', ''/tmp/dir/src.zip'']" "''/tmp/dir''"]
        findSourceArchive_first_existing_candidate
          [of "\<lambda>p. p \<in> set [''/tmp/dir/output/src_archive'']" "''/tmp/dir''"]
        findSourceArchive_first_existing_candidate
          [of "\<lambda>p. p \<in> set [''/tmp/dir/db-java'']" "''/tmp/dir''"]
  by (simp add: path_join_def Uri_file_def)

subsection \<open>The list of databases, its persisted copy and its events\<close>

lemma fire_fields:
  "databaseItems (fire k m) = databaseItems m"
  "workspaceState (fire k m) = workspaceState m"
  "firedEvents (fire k m) = firedEvents m @ [\<lparr>event_item = None, event_kind = k\<rparr>]"
  "disk (fire k m) = disk m"
  "workspaceFolders (fire k m) = workspaceFolders m"
  "storagePath (fire k m) = storagePath m"
  by (simp_all add: fire_def)

lemma updatePersistedDatabaseList_fields:
  "databaseItems (updatePersistedDatabaseList m) = databaseItems m"
  "workspaceState (updatePersistedDatabaseList m) ''databaseList''
     = Some (map persisted (databaseItems m))"
  "firedEvents (updatePersistedDatabaseList m) = firedEvents m"
  "disk (updatePersistedDatabaseList m) = disk m"
  "workspaceFolders (updatePersistedDatabaseList m) = workspaceFolders m"
  "storagePath (updatePersistedDatabaseList m) = storagePath m"
  by (simp_all add: updatePersistedDatabaseList_def)

lemma removeDatabaseItem_fields:
  "databaseItems (removeDatabaseItem belongs item m) = remove1 item (databaseItems m)"
  "workspaceState (removeDatabaseItem belongs item m) ''databaseList''
     = Some (map persisted (remove1 item (databaseItems m)))"
  "firedEvents (removeDatabaseItem belongs item m)
     = firedEvents m @ [\<lparr>event_item = None, event_kind = Remove\<rparr>]"
  "workspaceFolders (removeDatabaseItem belongs item m)
     = removeFirstFolder (belongs item) (workspaceFolders m)"
  "disk (removeDatabaseItem belongs item m)
     = (if liesUnder (storagePath m) (fsPath (item_databaseUri item))
        then fs_remove (fsPath (item_databaseUri item)) (disk m)
        else disk m)"
  by (simp_all add: removeDatabaseItem_def Let_def fire_fields updatePersistedDatabaseList_fields
      isExtensionControlledLocation_def)

text \<open>C5: every mutation of the list of database items leaves the workspace state's
  \<open>databaseList\<close> equal to the list of the items, each as its options and URI string, and
  fires one event.  \<open>addDatabaseItem\<close> appends the item and fires \<open>Add\<close>;
  \<open>removeDatabaseItem\<close> removes the item, so that a list that held it gets shorter by one,
  and fires \<open>Remove\<close>; \<open>renameDatabaseItem\<close> gives the item the new name, which the
  persisted options hold as \<open>displayName\<close>, and fires \<open>Rename\<close>.\<close>

theorem database_list_mutations_persist_and_fire:
  "databaseItems (addDatabaseItem item m) = databaseItems m @ [item]
   \<and> workspaceState (addDatabaseItem item m) ''databaseList''
       = Some (map (\<lambda>i. \<lparr>persisted_uri = Uri_toString (item_databaseUri i),
                           persisted_options = item_options i\<rparr>)
                 (databaseItems m @ [item]))
   \<and> firedEvents (addDatabaseItem item m)
       = firedEvents m @ [\<lparr>event_item = None, event_kind = Add\<rparr>]
   \<and> databaseItems (removeDatabaseItem belongs item m) = remove1 item (databaseItems m)
   \<and> (item \<in> set (databaseItems m) \<longrightarrow>
        length (databaseItems (removeDatabaseItem belongs item m)) + 1
          = length (databaseItems m))
   \<and> workspaceState (removeDatabaseItem belongs item m) ''databaseList''
       = Some (map (\<lambda>i. \<lparr>persisted_uri = Uri_toString (item_databaseUri i),
                           persisted_options = item_options i\<rparr>)
                 (remove1 item (databaseItems m)))
   \<and> firedEvents (removeDatabaseItem belongs item m)
       = firedEvents m @ [\<lparr>event_item = None, event_kind = Remove\<rparr>]
   \<and> databaseItems (renameDatabaseItem item newName m)
       = map (\<lambda>i. if i = item
                   then i\<lparr>item_name := newName,
                          item_options := (item_options i)\<lparr>displayName := Some newName\<rparr>\<rparr>
                   else i)
           (databaseItems m)
   \<and> workspaceState (renameDatabaseItem item newName m) ''databaseList''
       = Some (map (\<lambda>i. \<lparr>persisted_uri = Uri_toString (item_databaseUri i),
                           persisted_options =
                             (if i = item then (item_options i)\<lparr>displayName := Some newName\<rparr>
                              else item_options i)\<rparr>)
                 (databaseItems m))
   \<and> firedEvents (renameDatabaseItem item newName m)
       = firedEvents m @ [\<lparr>event_item = None, event_kind = Rename\<rparr>]"
proof -
  have p: "persisted = (\<lambda>i. \<lparr>persisted_uri = Uri_toString (item_databaseUri i),
                           persisted_options = item_options i\<rparr>)"
    by (rule ext) (simp add: persisted_def)
  have shorter: "length (remove1 item (databaseItems m)) + 1 = length (databaseItems m)"
    if "item \<in> set (databaseItems m)"
    using that by (simp add: length_remove1) (cases "databaseItems m", simp_all)
  have add: "databaseItems (addDatabaseItem item m) = databaseItems m @ [item]"
      "workspaceState (addDatabaseItem item m) ''databaseList''
         = Some (map persisted (databaseItems m @ [item]))"
      "firedEvents (addDatabaseItem item m)
         = firedEvents m @ [\<lparr>event_item = None, event_kind = Add\<rparr>]"
    by (simp_all add: addDatabaseItem_def fire_fields updatePersistedDatabaseList_fields)
  have rename: "databaseItems (renameDatabaseItem item newName m)
       = map (\<lambda>i. if i = item then renamed newName i else i) (databaseItems m)"
      "workspaceState (renameDatabaseItem item newName m) ''databaseList''
       = Some (map persisted (map (\<lambda>i. if i = item then renamed newName i else i) (databaseItems m)))"
      "firedEvents (renameDatabaseItem item newName m)
       = firedEvents m @ [\<lparr>event_item = None, event_kind = Rename\<rparr>]"
    by (simp_all add: renameDatabaseItem_def fire_fields updatePersistedDatabaseList_fields)
  have rename_persisted:
    "map persisted (map (\<lambda>i. if i = item then renamed newName i else i) (databaseItems m))
       = map (\<lambda>i. \<lparr>persisted_uri = Uri_toString (item_databaseUri i),
                           persisted_options =
                             (if i = item then (item_options i)\<lparr>displayName := Some newName\<rparr>
                              else item_options i)\<rparr>)
                 (databaseItems m)"
    by (simp add: p renamed_def)
  have rename_items:
    "map (\<lambda>i. if i = item then renamed newName i else i) (databaseItems m)
       = map (\<lambda>i. if i = item
                   then i\<lparr>item_name := newName,
                          item_options := (item_options i)\<lparr>displayName := Some newName\<rparr>\<rparr>
                   else i)
           (databaseItems m)"
    by (simp add: renamed_def)
  show ?thesis
    unfolding add rename removeDatabaseItem_fields rename_persisted rename_items
    using shorter by (simp add: p)
qed

text \<open>The tests \<open>should fire events when adding and removing a db item\<close> and \<open>should
  rename a db item and emit an event\<close>.\<close>

theorem database_list_mutations_persist_and_fire_witness:
  "workspaceState (addDatabaseItem mockDbItem (mock_manager ''/tmp/dir'')) ''databaseList''
     = Some [\<lparr>persisted_uri = ''file:///tmp/dir/db'', persisted_options = MOCK_DB_OPTIONS\<rparr>]
   \<and> firedEvents (addDatabaseItem mockDbItem (mock_manager ''/tmp/dir''))
       = [\<lparr>event_item = None, event_kind = Add\<rparr>]
   \<and> mockDbItem \<in> set (databaseItems (addDatabaseItem mockDbItem (mock_manager ''/tmp/dir'')))
   \<and> databaseItems
        (removeDatabaseItem (\<lambda>_ _. True) mockDbItem
           (addDatabaseItem mockDbItem (mock_manager ''/tmp/dir''))) = []
   \<and> workspaceState
        (removeDatabaseItem (\<lambda>_ _. True) mockDbItem
           (addDatabaseItem mockDbItem (mock_manager ''/tmp/dir''))) ''databaseList'' = Some []
   \<and> firedEvents
        (removeDatabaseItem (\<lambda>_ _. True) mockDbItem
           (addDatabaseItem mockDbItem (mock_manager ''/tmp/dir'')))
       = [\<lparr>event_item = None, event_kind = Add\<rparr>, \<lparr>event_item = None, event_kind = Remove\<rparr>]
   \<and> map item_name
        (databaseItems
           (renameDatabaseItem mockDbItem ''new name''
              (addDatabaseItem mockDbItem (mock_manager ''/tmp/dir'')))) = [''new name'']
   \<and> workspaceState
        (renameDatabaseItem mockDbItem ''new name''
           (addDatabaseItem mockDbItem (mock_manager ''/tmp/dir''))) ''databaseList''
       = Some [\<lparr>persisted_uri = ''file:///tmp/dir/db'',
                 persisted_options = MOCK_DB_OPTIONS\<lparr>displayName := Some ''new name''\<rparr>\<rparr>]
   \<and> firedEvents
        (renameDatabaseItem mockDbItem ''new name''
           (addDatabaseItem mockDbItem (mock_manager ''/tmp/dir'')))
       = [\<lparr>event_item = None, event_kind = Add\<rparr>, \<lparr>event_item = None, event_kind = Rename\<rparr>]"
proof -
  have start: "databaseItems (mock_manager ''/tmp/dir'') = []"
      "firedEvents (mock_manager ''/tmp/dir'') = []"
    by (simp_all add: mock_manager_def)
  have uri: "Uri_toString (item_databaseUri mockDbItem) = ''file:///tmp/dir/db''"
    by (simp add: Uri_toString_def mockDbItem_def Uri_file_def)
  have opts: "item_options mockDbItem = MOCK_DB_OPTIONS"
    by (simp add: mockDbItem_def)
  note added = database_list_mutations_persist_and_fire [of mockDbItem "mock_manager ''/tmp/dir''"]
  note later = database_list_mutations_persist_and_fire
      [of mockDbItem "addDatabaseItem mockDbItem (mock_manager ''/tmp/dir'')" "\<lambda>_ _. True" "''new name''"]
  show ?thesis
    using added later by (simp add: start uri opts)
qed

subsection \<open>What removal deletes from the disk\<close>

lemma startsWith_append:
  "startsWith str pre \<longleftrightarrow> (\<exists>rest. str = pre @ rest)"
proof
  assume "startsWith str pre"
  then have "str = pre @ drop (length pre) str"
    by (metis append_take_drop_id startsWith_def)
  then show "\<exists>rest. str = pre @ rest" ..
next
  assume "\<exists>rest. str = pre @ rest"
  then show "startsWith str pre"
    by (auto simp: startsWith_def)
qed

lemma withSeparator_continues: "\<exists>sep. withSeparator dir = dir @ sep"
  by (simp add: withSeparator_def)

text \<open>Lying under a directory, said with the rest of the path: the directory, a
  separator, and at least one more character.\<close>

lemma liesUnder_rest:
  "liesUnder dir p \<longleftrightarrow> dir \<noteq> '''' \<and> (\<exists>rest. rest \<noteq> '''' \<and> p = withSeparator dir @ rest)"
  by (auto simp: liesUnder_def startsWith_append)

text \<open>What lies under a directory that lies under another lies under the other.\<close>

lemma liesUnder_trans:
  assumes ab: "liesUnder a b" and bc: "liesUnder b c"
  shows "liesUnder a c"
proof -
  from ab obtain r where r: "r \<noteq> ''''" "b = withSeparator a @ r" and a: "a \<noteq> ''''"
    using liesUnder_rest by blast
  from bc obtain t where t: "t \<noteq> ''''" "c = withSeparator b @ t"
    using liesUnder_rest by blast
  obtain sep where sep: "withSeparator b = b @ sep"
    using withSeparator_continues by blast
  have "c = b @ sep @ t"
    using t(2) sep by simp
  then have "c = withSeparator a @ (r @ sep @ t)"
    using r(2) by simp
  moreover have "r @ sep @ t \<noteq> ''''"
    using r(1) by simp
  ultimately show ?thesis
    using a liesUnder_rest by blast
qed

text \<open>A path that goes on after the directory's name with a character other than the
  separator, such as \<open>/tmp/dir2/db\<close> after \<open>/tmp/dir\<close>, has the name as a prefix and yet is
  not under the directory.\<close>

lemma sibling_not_under:
  assumes "\<not> endsWith dir ''/''" and "c \<noteq> CHR ''/''"
  shows "startsWith (dir @ c # rest) dir \<and> \<not> liesUnder dir (dir @ c # rest)"
  using assms by (simp add: liesUnder_def startsWith_def withSeparator_def)

lemma fs_remove_deletes:
  "p \<notin> set (fs_remove p paths)"
  "q \<in> set paths \<Longrightarrow> q \<notin> set (fs_remove p paths) \<Longrightarrow> q = p \<or> liesUnder p q"
  "set (fs_remove p paths) \<subseteq> set paths"
  by (auto simp: fs_remove_def)

text \<open>C10: \<open>removeDatabaseItem\<close> deletes the database from the disk (\<open>fs.remove\<close> on the
  file-system path of its URI) only when that path lies under the storage path of the
  extension, and then every path that leaves the disk lies under the storage path.  For
  a database stored anywhere else, a sibling directory whose name begins like the
  storage path included, the disk stays as it was, while the item still leaves the list,
  the shrunken list is persisted, and the item's workspace folder is removed.\<close>

theorem removeDatabaseItem_deletes_only_under_storagePath:
  "(liesUnder (storagePath m) (fsPath (item_databaseUri item)) \<longrightarrow>
      disk (removeDatabaseItem belongs item m)
        = fs_remove (fsPath (item_databaseUri item)) (disk m)
      \<and> fsPath (item_databaseUri item) \<notin> set (disk (removeDatabaseItem belongs item m)))
   \<and> (\<not> liesUnder (storagePath m) (fsPath (item_databaseUri item)) \<longrightarrow>
      disk (removeDatabaseItem belongs item m) = disk m)
   \<and> (disk (removeDatabaseItem belongs item m) \<noteq> disk m \<longrightarrow>
      liesUnder (storagePath m) (fsPath (item_databaseUri item)))
   \<and> (\<forall>q. q \<in> set (disk m) \<and> q \<notin> set (disk (removeDatabaseItem belongs item m)) \<longrightarrow>
         liesUnder (storagePath m) q
         \<and> (q = fsPath (item_databaseUri item) \<or> liesUnder (fsPath (item_databaseUri item)) q))
   \<and> databaseItems (removeDatabaseItem belongs item m) = remove1 item (databaseItems m)
   \<and> workspaceState (removeDatabaseItem belongs item m) ''databaseList''
       = Some (map persisted (remove1 item (databaseItems m)))
   \<and> workspaceFolders (removeDatabaseItem belongs item m)
       = removeFirstFolder (belongs item) (workspaceFolders m)"
proof -
  let ?p = "fsPath (item_databaseUri item)"
  let ?after = "removeDatabaseItem belongs item m"
  have disk_after: "disk ?after = (if liesUnder (storagePath m) ?p then fs_remove ?p (disk m)
                                   else disk m)"
    by (rule removeDatabaseItem_fields(5))
  have deleted: "liesUnder (storagePath m) q
                 \<and> (q = ?p \<or> liesUnder ?p q)"
    if q: "q \<in> set (disk m) \<and> q \<notin> set (disk ?after)" for q
  proof -
    have controlled: "liesUnder (storagePath m) ?p"
      using q disk_after by (cases "liesUnder (storagePath m) ?p") simp_all
    then have "q \<notin> set (fs_remove ?p (disk m))"
      using q disk_after by simp
    then have below: "q = ?p \<or> liesUnder ?p q"
      using q fs_remove_deletes(2) by blast
    then have "liesUnder (storagePath m) q"
      using controlled liesUnder_trans by blast
    with below show ?thesis by simp
  qed
  have changed: "liesUnder (storagePath m) ?p" if "disk ?after \<noteq> disk m"
    using that disk_after by (cases "liesUnder (storagePath m) ?p") simp_all
  have inside: "disk ?after = fs_remove ?p (disk m) \<and> ?p \<notin> set (disk ?after)"
    if "liesUnder (storagePath m) ?p"
    using that by (simp add: disk_after fs_remove_deletes(1))
  have outside: "disk ?after = disk m" if "\<not> liesUnder (storagePath m) ?p"
    using that by (simp add: disk_after)
  show ?thesis
  proof (intro conjI impI allI)
    show "databaseItems ?after = remove1 item (databaseItems m)"
      by (rule removeDatabaseItem_fields(1))
    show "workspaceState ?after ''databaseList''
            = Some (map persisted (remove1 item (databaseItems m)))"
      by (rule removeDatabaseItem_fields(2))
    show "workspaceFolders ?after = removeFirstFolder (belongs item) (workspaceFolders m)"
      by (rule removeDatabaseItem_fields(4))
  qed (use inside outside changed deleted in blast)+
qed

text \<open>The tests \<open>should remove a database item\<close>, with the temporary directory \<open>/tmp/dir\<close> as
  storage path, and \<open>should remove a database item outside of the extension controlled
  area\<close>, with the storage path \<open>hucairz\<close>; and the database \<open>/tmp/dir/db\<close> beside the
  storage path \<open>/tmp/di\<close>, a prefix of its path that is not a directory above it.\<close>

theorem removeDatabaseItem_deletes_only_under_storagePath_witness:
  "liesUnder ''/tmp/dir'' (fsPath (item_databaseUri mockDbItem))
   \<and> disk (removeDatabaseItem (\<lambda>_ _. True) mockDbItem
             (addDatabaseItem mockDbItem (mock_manager ''/tmp/dir'')))
       = [''/tmp/dir/src.zip'']
   \<and> \<not> liesUnder ''hucairz'' (fsPath (item_databaseUri mockDbItem))
   \<and> disk (removeDatabaseItem (\<lambda>_ _. True) mockDbItem
             (addDatabaseItem mockDbItem (mock_manager ''hucairz'')))
       = [''/tmp/dir/db'', ''/tmp/dir/db/db-java'', ''/tmp/dir/src.zip'']
   \<and> \<not> liesUnder ''/tmp/dir'' ''/tmp/dir2/db''
   \<and> startsWith (fsPath (item_databaseUri mockDbItem)) ''/tmp/di''
   \<and> \<not> liesUnder ''/tmp/di'' (fsPath (item_databaseUri mockDbItem))
   \<and> disk (removeDatabaseItem (\<lambda>_ _. True) mockDbItem
             (addDatabaseItem mockDbItem (mock_manager ''/tmp/di'')))
       = [''/tmp/dir/db'', ''/tmp/dir/db/db-java'', ''/tmp/dir/src.zip'']
   \<and> \<not> liesUnder '''' (fsPath (item_databaseUri mockDbItem))
   \<and> disk (removeDatabaseItem (\<lambda>_ _. True) mockDbItem
             (addDatabaseItem mockDbItem (mock_manager '''')))
       = [''/tmp/dir/db'', ''/tmp/dir/db/db-java'', ''/tmp/dir/src.zip'']
   \<and> databaseItems (removeDatabaseItem (\<lambda>_ _. True) mockDbItem
                      (addDatabaseItem mockDbItem (mock_manager ''hucairz''))) = []
   \<and> workspaceState (removeDatabaseItem (\<lambda>_ _. True) mockDbItem
                       (addDatabaseItem mockDbItem (mock_manager ''hucairz''))) ''databaseList''
       = Some []
   \<and> workspaceFolders (removeDatabaseItem (\<lambda>_ _. True) mockDbItem
                         (addDatabaseItem mockDbItem (mock_manager ''hucairz''))) = []"
proof -
  have p: "fsPath (item_databaseUri mockDbItem) = ''/tmp/dir/db''"
    by (simp add: mockDbItem_def Uri_file_def)
  have under: "liesUnder ''/tmp/dir'' ''/tmp/dir/db''"
    by (simp add: liesUnder_def startsWith_def withSeparator_def endsWith_def)
  have outside: "\<not> liesUnder ''hucairz'' ''/tmp/dir/db''"
    by (simp add: liesUnder_def startsWith_def withSeparator_def endsWith_def)
  have beside: "startsWith ''/tmp/dir/db'' ''/tmp/di''" "\<not> liesUnder ''/tmp/di'' ''/tmp/dir/db''"
    by (simp_all add: liesUnder_def startsWith_def withSeparator_def endsWith_def)
  have sibling: "\<not> liesUnder ''/tmp/dir'' ''/tmp/dir2/db''"
    using sibling_not_under [of "''/tmp/dir''" "CHR ''2''" "''/db''"]
    by (simp add: endsWith_def)
  have nowhere: "\<not> liesUnder '''' ''/tmp/dir/db''"
    by (simp add: liesUnder_def)
  have added: "storagePath (addDatabaseItem mockDbItem (mock_manager st)) = st"
      "disk (addDatabaseItem mockDbItem (mock_manager st))
         = [''/tmp/dir/db'', ''/tmp/dir/db/db-java'', ''/tmp/dir/src.zip'']"
      "databaseItems (addDatabaseItem mockDbItem (mock_manager st)) = [mockDbItem]"
      "workspaceFolders (addDatabaseItem mockDbItem (mock_manager st))
         = [Uri_file ''/tmp/dir/src.zip'']" for st
    by (simp_all add: addDatabaseItem_def fire_fields updatePersistedDatabaseList_fields
        mock_manager_def)
  have gone: "fs_remove ''/tmp/dir/db''
                [''/tmp/dir/db'', ''/tmp/dir/db/db-java'', ''/tmp/dir/src.zip'']
              = [''/tmp/dir/src.zip'']"
    by (simp add: fs_remove_def liesUnder_def startsWith_def withSeparator_def endsWith_def)
  note removal = removeDatabaseItem_deletes_only_under_storagePath
  have inside: "disk (removeDatabaseItem (\<lambda>_ _. True) mockDbItem
             (addDatabaseItem mockDbItem (mock_manager ''/tmp/dir'')))
       = [''/tmp/dir/src.zip'']"
    using removal [of "addDatabaseItem mockDbItem (mock_manager ''/tmp/dir'')" mockDbItem "\<lambda>_ _. True"]
      under by (simp add: added gone p)
  have kept: "disk (removeDatabaseItem (\<lambda>_ _. True) mockDbItem
             (addDatabaseItem mockDbItem (mock_manager st)))
       = [''/tmp/dir/db'', ''/tmp/dir/db/db-java'', ''/tmp/dir/src.zip'']"
    if "\<not> liesUnder st ''/tmp/dir/db''" for st
    using removal [of "addDatabaseItem mockDbItem (mock_manager st)" mockDbItem "\<lambda>_ _. True"]
      that by (simp add: added p)
  have rest: "databaseItems (removeDatabaseItem (\<lambda>_ _. True) mockDbItem
                      (addDatabaseItem mockDbItem (mock_manager ''hucairz''))) = []"
      "workspaceState (removeDatabaseItem (\<lambda>_ _. True) mockDbItem
                       (addDatabaseItem mockDbItem (mock_manager ''hucairz''))) ''databaseList''
         = Some []"
      "workspaceFolders (removeDatabaseItem (\<lambda>_ _. True) mockDbItem
                         (addDatabaseItem mockDbItem (mock_manager ''hucairz''))) = []"
    using removal [of "addDatabaseItem mockDbItem (mock_manager ''hucairz'')" mockDbItem "\<lambda>_ _. True"]
    by (simp_all add: added)
  show ?thesis
    unfolding p
    using under outside sibling beside nowhere inside kept [OF outside] kept [OF beside(2)]
      kept [OF nowhere] rest
    by simp
qed

end
